theory Spec2Isabelle
  imports Main "HOL-Library.Word"
begin

section \<open>IEEE 754 arithmetic, as the filter uses it\<close>

text \<open>
  \<^verbatim>\<open>ResonantLowPassFilter.cpp\<close> computes in \<^verbatim>\<open>double\<close> and exchanges samples as
  \<^verbatim>\<open>float\<close>. Both are modelled by their bit patterns: a \<^verbatim>\<open>double\<close> is a 64-bit word
  (1 sign bit, 11 exponent bits, 52 fraction bits), a \<^verbatim>\<open>float\<close> a 32-bit word (1, 8, 23).
  The operations below are IEEE 754 binary arithmetic with the default rounding (to
  nearest, ties to even), each C++ operation rounded once, with no contraction into
  fused multiply-add and no excess precision. Every NaN result is the one quiet NaN
  pattern \<open>nan_bits\<close>: the filter reads a NaN only through \<^verbatim>\<open>isnan\<close> and the comparisons,
  which ignore its sign and payload.
\<close>

type_synonym f64 = "64 word"
type_synonym f32 = "32 word"

text \<open>
  The value a bit pattern stands for: \<open>FNum s m e\<close> is \<open>(-1)\<^sup>s * m * 2\<^sup>e\<close>, so that both
  zeros are \<open>FNum s 0 _\<close>. The parameters \<open>t\<close> and \<open>w\<close> are the numbers of fraction and
  exponent bits of the format.
\<close>

datatype fpval = FNaN | FInf bool | FNum bool nat int

definition emin :: "nat \<Rightarrow> nat \<Rightarrow> int" where
  "emin t w = 2 - 2 ^ (w - 1) - int t"

definition unpack_fields :: "nat \<Rightarrow> nat \<Rightarrow> bool \<Rightarrow> nat \<Rightarrow> nat \<Rightarrow> fpval" where
  "unpack_fields t w s ex fr =
     (if ex = 2 ^ w - 1 then (if fr = 0 then FInf s else FNaN)
      else if ex = 0 then FNum s fr (emin t w)
      else FNum s (2 ^ t + fr) (emin t w + int ex - 1))"

definition unpack :: "nat \<Rightarrow> nat \<Rightarrow> nat \<Rightarrow> fpval" where
  "unpack t w b =
     unpack_fields t w ((b div 2 ^ (t + w)) mod 2 = 1) ((b div 2 ^ t) mod 2 ^ w) (b mod 2 ^ t)"

definition sign_bit :: "nat \<Rightarrow> nat \<Rightarrow> bool \<Rightarrow> nat" where
  "sign_bit t w s = (if s then 2 ^ (t + w) else 0)"

definition inf_bits :: "nat \<Rightarrow> nat \<Rightarrow> bool \<Rightarrow> nat" where
  "inf_bits t w s = sign_bit t w s + (2 ^ w - 1) * 2 ^ t"

definition nan_bits :: "nat \<Rightarrow> nat \<Rightarrow> nat" where
  "nan_bits t w = (2 ^ w - 1) * 2 ^ t + 2 ^ (t - 1)"

text \<open>
  Rounding the exact value \<open>n / d * 2\<^sup>e\<close> (with \<open>0 < d\<close>) to the format. \<open>quantum\<close> is the
  exponent of the last place of the result: the significand \<open>n / d * 2\<^sup>e / 2\<^sup>E\<close> then has
  \<open>t + 1\<close> bits, or fewer at the subnormal exponent \<open>emin\<close>. The significand is rounded
  to the nearest integer, ties to the even one; \<open>encode\<close> adds it to the exponent field,
  where a carry out of the significand moves to the next exponent by itself, and a result at
  or beyond the all-ones exponent is an infinity.
\<close>

fun bitlen :: "nat \<Rightarrow> nat" where
  "bitlen n = (if n = 0 then 0 else bitlen (n div 2) + 1)"

definition scaled :: "nat \<Rightarrow> nat \<Rightarrow> int \<Rightarrow> nat \<times> nat" where
  "scaled n d sh = (if 0 \<le> sh then (n * 2 ^ nat sh, d) else (n, d * 2 ^ nat (- sh)))"

definition floor_quotient :: "nat \<times> nat \<Rightarrow> nat" where
  "floor_quotient ND = fst ND div snd ND"

definition round_quotient :: "nat \<times> nat \<Rightarrow> nat" where
  "round_quotient ND =
     (if snd ND < 2 * (fst ND mod snd ND) \<or>
         (2 * (fst ND mod snd ND) = snd ND \<and> odd (fst ND div snd ND))
      then fst ND div snd ND + 1 else fst ND div snd ND)"

definition quantum_adjust :: "nat \<Rightarrow> nat \<Rightarrow> int \<Rightarrow> nat \<Rightarrow> int" where
  "quantum_adjust t w E1 q = (if q < 2 ^ t \<and> emin t w < E1 then E1 - 1 else E1)"

definition quantum_from :: "nat \<Rightarrow> nat \<Rightarrow> nat \<Rightarrow> nat \<Rightarrow> int \<Rightarrow> int \<Rightarrow> int" where
  "quantum_from t w n d e E1 = quantum_adjust t w E1 (floor_quotient (scaled n d (e - E1)))"

definition quantum :: "nat \<Rightarrow> nat \<Rightarrow> nat \<Rightarrow> nat \<Rightarrow> int \<Rightarrow> int" where
  "quantum t w n d e =
     quantum_from t w n d e (max (emin t w) (int (bitlen n) - int (bitlen d) + e - int t))"

definition encode :: "nat \<Rightarrow> nat \<Rightarrow> bool \<Rightarrow> nat \<Rightarrow> nat" where
  "encode t w s b = (if (2 ^ w - 1) * 2 ^ t \<le> b then inf_bits t w s else sign_bit t w s + b)"

definition round_at :: "nat \<Rightarrow> nat \<Rightarrow> bool \<Rightarrow> nat \<Rightarrow> nat \<Rightarrow> int \<Rightarrow> int \<Rightarrow> nat" where
  "round_at t w s n d e E =
     encode t w s (nat (E - emin t w) * 2 ^ t + round_quotient (scaled n d (e - E)))"

definition round_pack :: "nat \<Rightarrow> nat \<Rightarrow> bool \<Rightarrow> nat \<Rightarrow> nat \<Rightarrow> int \<Rightarrow> nat" where
  "round_pack t w s n d e =
     (if n = 0 then sign_bit t w s else round_at t w s n d e (quantum t w n d e))"

text \<open>Multiplication and division: the sign is the exclusive or of the signs, also for zeros
  and infinities; \<open>0 * \<infinity>\<close>, \<open>\<infinity> / \<infinity>\<close> and \<open>0 / 0\<close> are NaN.\<close>

fun mul_val :: "nat \<Rightarrow> nat \<Rightarrow> fpval \<Rightarrow> fpval \<Rightarrow> nat" where
  "mul_val t w FNaN y = nan_bits t w"
| "mul_val t w x FNaN = nan_bits t w"
| "mul_val t w (FInf s1) (FInf s2) = inf_bits t w (s1 \<noteq> s2)"
| "mul_val t w (FInf s1) (FNum s2 m2 e2) =
     (if m2 = 0 then nan_bits t w else inf_bits t w (s1 \<noteq> s2))"
| "mul_val t w (FNum s1 m1 e1) (FInf s2) =
     (if m1 = 0 then nan_bits t w else inf_bits t w (s1 \<noteq> s2))"
| "mul_val t w (FNum s1 m1 e1) (FNum s2 m2 e2) =
     round_pack t w (s1 \<noteq> s2) (m1 * m2) 1 (e1 + e2)"

definition fp_mul :: "nat \<Rightarrow> nat \<Rightarrow> nat \<Rightarrow> nat \<Rightarrow> nat" where
  "fp_mul t w a b = mul_val t w (unpack t w a) (unpack t w b)"

fun div_val :: "nat \<Rightarrow> nat \<Rightarrow> fpval \<Rightarrow> fpval \<Rightarrow> nat" where
  "div_val t w FNaN y = nan_bits t w"
| "div_val t w x FNaN = nan_bits t w"
| "div_val t w (FInf s1) (FInf s2) = nan_bits t w"
| "div_val t w (FInf s1) (FNum s2 m2 e2) = inf_bits t w (s1 \<noteq> s2)"
| "div_val t w (FNum s1 m1 e1) (FInf s2) = sign_bit t w (s1 \<noteq> s2)"
| "div_val t w (FNum s1 m1 e1) (FNum s2 m2 e2) =
     (if m2 = 0 then (if m1 = 0 then nan_bits t w else inf_bits t w (s1 \<noteq> s2))
      else round_pack t w (s1 \<noteq> s2) m1 m2 (e1 - e2))"

definition fp_div :: "nat \<Rightarrow> nat \<Rightarrow> nat \<Rightarrow> nat \<Rightarrow> nat" where
  "fp_div t w a b = div_val t w (unpack t w a) (unpack t w b)"

text \<open>Addition: the exact sum at the smaller exponent (at the exponent of the other operand
  when one is zero), rounded once. An exact zero sum is
  \<open>+0\<close>, except that \<open>(-0) + (-0)\<close> is \<open>-0\<close>; \<open>\<infinity> + (-\<infinity>)\<close> is NaN. Subtraction adds the
  negation, and negation flips the sign bit.\<close>

definition signed_mant :: "bool \<Rightarrow> nat \<Rightarrow> int" where
  "signed_mant s m = (if s then - int m else int m)"

definition round_signed :: "nat \<Rightarrow> nat \<Rightarrow> bool \<Rightarrow> int \<Rightarrow> int \<Rightarrow> nat" where
  "round_signed t w z M e =
     (if M = 0 then sign_bit t w z else round_pack t w (M < 0) (nat \<bar>M\<bar>) 1 e)"

definition add_aligned ::
  "nat \<Rightarrow> nat \<Rightarrow> bool \<Rightarrow> nat \<Rightarrow> int \<Rightarrow> bool \<Rightarrow> nat \<Rightarrow> int \<Rightarrow> int \<Rightarrow> nat" where
  "add_aligned t w s1 m1 e1 s2 m2 e2 e =
     round_signed t w (s1 \<and> s2)
       (signed_mant s1 (m1 * 2 ^ nat (e1 - e)) + signed_mant s2 (m2 * 2 ^ nat (e2 - e))) e"

fun add_val :: "nat \<Rightarrow> nat \<Rightarrow> fpval \<Rightarrow> fpval \<Rightarrow> nat" where
  "add_val t w FNaN y = nan_bits t w"
| "add_val t w x FNaN = nan_bits t w"
| "add_val t w (FInf s1) (FInf s2) = (if s1 = s2 then inf_bits t w s1 else nan_bits t w)"
| "add_val t w (FInf s1) (FNum s2 m2 e2) = inf_bits t w s1"
| "add_val t w (FNum s1 m1 e1) (FInf s2) = inf_bits t w s2"
| "add_val t w (FNum s1 m1 e1) (FNum s2 m2 e2) =
     add_aligned t w s1 m1 e1 s2 m2 e2 (if m1 = 0 then e2 else if m2 = 0 then e1 else min e1 e2)"

definition fp_add :: "nat \<Rightarrow> nat \<Rightarrow> nat \<Rightarrow> nat \<Rightarrow> nat" where
  "fp_add t w a b = add_val t w (unpack t w a) (unpack t w b)"

definition fp_neg :: "nat \<Rightarrow> nat \<Rightarrow> nat \<Rightarrow> nat" where
  "fp_neg t w a = (if a div 2 ^ (t + w) mod 2 = 1 then a - 2 ^ (t + w) else a + 2 ^ (t + w))"

text \<open>Conversion between the formats: exact from \<^verbatim>\<open>float\<close> to \<^verbatim>\<open>double\<close>, rounded (and
  overflowing to an infinity) from \<^verbatim>\<open>double\<close> to \<^verbatim>\<open>float\<close>.\<close>

fun convert_val :: "nat \<Rightarrow> nat \<Rightarrow> fpval \<Rightarrow> nat" where
  "convert_val t w FNaN = nan_bits t w"
| "convert_val t w (FInf s) = inf_bits t w s"
| "convert_val t w (FNum s m e) = round_pack t w s m 1 e"

definition fp_convert :: "nat \<Rightarrow> nat \<Rightarrow> nat \<Rightarrow> nat \<Rightarrow> nat \<Rightarrow> nat" where
  "fp_convert t w t' w' a = convert_val t' w' (unpack t w a)"

subsection \<open>The operations of the two C++ types\<close>

definition dmul :: "f64 \<Rightarrow> f64 \<Rightarrow> f64" where
  "dmul a b = word_of_nat (fp_mul 52 11 (unat a) (unat b))"

definition ddiv :: "f64 \<Rightarrow> f64 \<Rightarrow> f64" where
  "ddiv a b = word_of_nat (fp_div 52 11 (unat a) (unat b))"

definition dadd :: "f64 \<Rightarrow> f64 \<Rightarrow> f64" where
  "dadd a b = word_of_nat (fp_add 52 11 (unat a) (unat b))"

definition dneg :: "f64 \<Rightarrow> f64" where
  "dneg a = word_of_nat (fp_neg 52 11 (unat a))"

definition dsub :: "f64 \<Rightarrow> f64 \<Rightarrow> f64" where
  "dsub a b = dadd a (dneg b)"

definition to_float :: "f64 \<Rightarrow> f32" where
  "to_float a = word_of_nat (fp_convert 52 11 23 8 (unat a))"

definition to_double :: "f32 \<Rightarrow> f64" where
  "to_double a = word_of_nat (fp_convert 23 8 52 11 (unat a))"

definition isnan64 :: "f64 \<Rightarrow> bool" where
  "isnan64 a = (unpack 52 11 (unat a) = FNaN)"

definition isnan32 :: "f32 \<Rightarrow> bool" where
  "isnan32 a = (unpack 23 8 (unat a) = FNaN)"

definition isinf32 :: "f32 \<Rightarrow> bool" where
  "isinf32 a = (unpack 23 8 (unat a) = FInf False \<or> unpack 23 8 (unat a) = FInf True)"

text \<open>
  The comparisons \<^verbatim>\<open>==\<close>, \<^verbatim>\<open><\<close> and \<^verbatim>\<open>>\<close> on \<^verbatim>\<open>double\<close>. A comparison with a NaN is false.
  Otherwise the order of the values is the order of the sign-magnitude integers \<open>dkey\<close>
  that the bit patterns spell, where \<open>-0\<close> and \<open>+0\<close> both have the key 0.
\<close>

definition dkey :: "f64 \<Rightarrow> int" where
  "dkey a = (if unat a < 2 ^ 63 then int (unat a) else - int (unat a - 2 ^ 63))"

definition d_eq :: "f64 \<Rightarrow> f64 \<Rightarrow> bool" where
  "d_eq a b = (\<not> isnan64 a \<and> \<not> isnan64 b \<and> dkey a = dkey b)"

definition d_lt :: "f64 \<Rightarrow> f64 \<Rightarrow> bool" where
  "d_lt a b = (\<not> isnan64 a \<and> \<not> isnan64 b \<and> dkey a < dkey b)"

definition d_gt :: "f64 \<Rightarrow> f64 \<Rightarrow> bool" where
  "d_gt a b = d_lt b a"

subsection \<open>The literals of the source\<close>

definition dbl_0_0 :: f64 where "dbl_0_0 = 0x0000000000000000"
definition dbl_neg_0_0 :: f64 where "dbl_neg_0_0 = 0x8000000000000000"
definition dbl_0_05 :: f64 where "dbl_0_05 = 0x3FA999999999999A"
definition dbl_0_25 :: f64 where "dbl_0_25 = 0x3FD0000000000000"
definition dbl_0_5 :: f64 where "dbl_0_5 = 0x3FE0000000000000"
definition dbl_0_99 :: f64 where "dbl_0_99 = 0x3FEFAE147AE147AE"
definition dbl_1_0 :: f64 where "dbl_1_0 = 0x3FF0000000000000"
definition dbl_2_0 :: f64 where "dbl_2_0 = 0x4000000000000000"
definition dbl_4_0 :: f64 where "dbl_4_0 = 0x4010000000000000"
definition dbl_5_0 :: f64 where "dbl_5_0 = 0x4014000000000000"
definition dbl_10_0 :: f64 where "dbl_10_0 = 0x4024000000000000"
definition dbl_12_0 :: f64 where "dbl_12_0 = 0x4028000000000000"
definition dbl_20_0 :: f64 where "dbl_20_0 = 0x4034000000000000"
definition dbl_100_0 :: f64 where "dbl_100_0 = 0x4059000000000000"
definition dbl_1000_0 :: f64 where "dbl_1000_0 = 0x408F400000000000"
definition dbl_44100_0 :: f64 where "dbl_44100_0 = 0x40E5888000000000"
definition M_PI :: f64 where "M_PI = 0x400921FB54442D18"
definition dbl_neg_1_0 :: f64 where "dbl_neg_1_0 = 0xBFF0000000000000"
definition dbl_neg_2_0 :: f64 where "dbl_neg_2_0 = 0xC000000000000000"
definition dbl_neg_20_0 :: f64 where "dbl_neg_20_0 = 0xC034000000000000"
definition dbl_neg_30_0 :: f64 where "dbl_neg_30_0 = 0xC03E000000000000"
definition dbl_inf :: f64 where "dbl_inf = 0x7FF0000000000000"
definition flt_0_0 :: f32 where "flt_0_0 = 0x00000000"
definition flt_neg_0_5 :: f32 where "flt_neg_0_5 = 0xBF000000"
definition flt_max :: f32 where "flt_max = 0x7F7FFFFF"
definition flt_inf :: f32 where "flt_inf = 0x7F800000"

section \<open>The filter\<close>

text \<open>
  \<^verbatim>\<open>static const float kMinCutoffHz = 12.0;\<close> and its two neighbours: \<^verbatim>\<open>double\<close> literals
  stored as \<^verbatim>\<open>float\<close>, and widened again where \<^verbatim>\<open>setParams\<close> compares a \<^verbatim>\<open>double\<close> with them.
\<close>

definition kMinCutoffHz :: f32 where
  "kMinCutoffHz = to_float dbl_12_0"

definition kMinResonance :: f32 where
  "kMinResonance = to_float (dneg dbl_20_0)"

definition kMaxResonance :: f32 where
  "kMaxResonance = to_float dbl_20_0"

text \<open>The members of the class: coefficients, history taps, and the memoized settings.\<close>

record ResonantLowPassFilter =
  mA0 :: f64
  mA1 :: f64
  mA2 :: f64
  mB1 :: f64
  mB2 :: f64
  mX1 :: f64
  mX2 :: f64
  mY1 :: f64
  mY2 :: f64
  sampleRateHz :: f64
  mLastCutoffHz :: f64
  mLastResonanceDb :: f64

text \<open>
  \<^verbatim>\<open>init\<close> (lines 31 to 40). The chained assignment
  \<^verbatim>\<open>mX1 = mX2 = mY1 = mY1 = 0.0;\<close> is executed from the right: \<^verbatim>\<open>mY1\<close> is assigned twice
  and \<^verbatim>\<open>mY2\<close> does not occur in it. The same holds for
  \<^verbatim>\<open>mLastCutoffHz = mLastResonanceDb = -1.0;\<close>.
\<close>

definition init :: "f64 \<Rightarrow> ResonantLowPassFilter \<Rightarrow> ResonantLowPassFilter" where
  "init sampleRate this =
     (let this = this\<lparr>sampleRateHz := sampleRate\<rparr>;
          this = this\<lparr>mY1 := dbl_0_0\<rparr>;
          this = this\<lparr>mY1 := mY1 this\<rparr>;
          this = this\<lparr>mX2 := mY1 this\<rparr>;
          this = this\<lparr>mX1 := mX2 this\<rparr>;
          this = this\<lparr>mLastResonanceDb := dneg dbl_1_0\<rparr>;
          this = this\<lparr>mLastCutoffHz := mLastResonanceDb this\<rparr>
      in this)"

text \<open>The constructor (lines 26 to 29) runs \<^verbatim>\<open>init(44100.0)\<close> on the object's storage,
  whose members hold whatever they held before.\<close>

definition construct :: "ResonantLowPassFilter \<Rightarrow> ResonantLowPassFilter" where
  "construct storage = init dbl_44100_0 storage"

text \<open>
  \<^verbatim>\<open>pow\<close>, \<^verbatim>\<open>sin\<close> and \<^verbatim>\<open>cos\<close> come from the C library, which is not part of the repository
  and whose results IEEE 754 does not fix: \<^verbatim>\<open>setParams\<close> takes them as a parameter.
\<close>

record libm =
  lm_pow :: "f64 \<Rightarrow> f64 \<Rightarrow> f64"
  lm_sin :: "f64 \<Rightarrow> f64"
  lm_cos :: "f64 \<Rightarrow> f64"

text \<open>\<^verbatim>\<open>setParams\<close> (lines 42 to 70). The arguments are passed by value and overwritten by the
  clamps; the memoized members are assigned from the overwritten arguments (lines 55, 56).\<close>

definition setParams ::
  "libm \<Rightarrow> f64 \<Rightarrow> f64 \<Rightarrow> ResonantLowPassFilter \<Rightarrow> ResonantLowPassFilter" where
  "setParams lm newCutoffHz newResonanceDb this =
     (if d_eq newCutoffHz (mLastCutoffHz this) \<and> d_eq newResonanceDb (mLastResonanceDb this)
      then this
      else
        let newCutoffHz =
              (if d_lt newCutoffHz (to_double kMinCutoffHz) then to_double kMinCutoffHz
               else newCutoffHz);
            newResonanceDb =
              (if d_lt newResonanceDb (to_double kMinResonance) then to_double kMinResonance
               else newResonanceDb);
            newResonanceDb =
              (if d_gt newResonanceDb (to_double kMaxResonance) then to_double kMaxResonance
               else newResonanceDb);
            cutoff = ddiv (dmul dbl_2_0 newCutoffHz) (sampleRateHz this);
            cutoff = (if d_gt cutoff dbl_0_99 then dbl_0_99 else cutoff);
            this = this\<lparr>mLastCutoffHz := newCutoffHz\<rparr>;
            this = this\<lparr>mLastResonanceDb := newResonanceDb\<rparr>;
            r = lm_pow lm dbl_10_0 (dmul dbl_0_05 (dneg newResonanceDb));
            k = dmul (dmul dbl_0_5 r) (lm_sin lm (dmul M_PI cutoff));
            c1 = ddiv (dmul dbl_0_5 (dsub dbl_1_0 k)) (dadd dbl_1_0 k);
            c2 = dmul (dadd dbl_0_5 c1) (lm_cos lm (dmul M_PI cutoff));
            c3 = dmul (dsub (dadd dbl_0_5 c1) c2) dbl_0_25;
            this = this\<lparr>mA0 := dmul dbl_2_0 c3\<rparr>;
            this = this\<lparr>mA1 := dmul (dmul dbl_2_0 dbl_2_0) c3\<rparr>;
            this = this\<lparr>mA2 := dmul dbl_2_0 c3\<rparr>;
            this = this\<lparr>mB1 := dmul dbl_2_0 (dneg c2)\<rparr>;
            this = this\<lparr>mB2 := dmul dbl_2_0 c1\<rparr>
        in this)"

text \<open>The single-sample \<^verbatim>\<open>process\<close> (lines 89 to 100): the returned sample and the filter
  after the call.\<close>

definition process :: "f32 \<Rightarrow> ResonantLowPassFilter \<Rightarrow> f32 \<times> ResonantLowPassFilter" where
  "process inputSample this =
     (let outputSample =
            to_float
              (dsub (dsub (dadd (dadd (dmul (mA0 this) (to_double inputSample))
                                      (dmul (mA1 this) (mX1 this)))
                                (dmul (mA2 this) (mX2 this)))
                          (dmul (mB1 this) (mY1 this)))
                    (dmul (mB2 this) (mY2 this)));
          outputSample = (if isnan32 outputSample then flt_0_0 else outputSample);
          this = this\<lparr>mX2 := mX1 this\<rparr>;
          this = this\<lparr>mX1 := to_double inputSample\<rparr>;
          this = this\<lparr>mY2 := mY1 this\<rparr>;
          this = this\<lparr>mY1 := to_double outputSample\<rparr>
      in (outputSample, this))"

text \<open>
  The block \<^verbatim>\<open>process\<close> (lines 72 to 87) reads and writes the caller's memory through two
  pointers that may point into the same buffer. Memory is a store from addresses (counted
  in \<^verbatim>\<open>float\<close>s) to samples, and a pointer is an address. \<open>process_frames\<close> is the loop body
  run a given number of times.
\<close>

type_synonym memory = "nat \<Rightarrow> f32"

fun process_frames ::
  "nat \<Rightarrow> nat \<Rightarrow> nat \<Rightarrow> memory \<Rightarrow> ResonantLowPassFilter \<Rightarrow> memory \<times> ResonantLowPassFilter" where
  "process_frames 0 sourceP destP mem this = (mem, this)"
| "process_frames (Suc n) sourceP destP mem this =
     (let input = mem sourceP;
          output =
            to_float
              (dsub (dsub (dadd (dadd (dmul (mA0 this) (to_double input))
                                      (dmul (mA1 this) (mX1 this)))
                                (dmul (mA2 this) (mX2 this)))
                          (dmul (mB1 this) (mY1 this)))
                    (dmul (mB2 this) (mY2 this)));
          output = (if isnan32 output then flt_0_0 else output);
          this = this\<lparr>mX2 := mX1 this\<rparr>;
          this = this\<lparr>mX1 := to_double input\<rparr>;
          this = this\<lparr>mY2 := mY1 this\<rparr>;
          this = this\<lparr>mY1 := to_double output\<rparr>;
          mem = mem(destP := output)
      in process_frames n (Suc sourceP) (Suc destP) mem this)"

text \<open>
  \<^verbatim>\<open>while (inFramesToProcess--)\<close> on the 32-bit \<^verbatim>\<open>int\<close> argument runs the body
  \<^verbatim>\<open>inFramesToProcess\<close> times when the count is not negative. A negative count never
  reaches zero by decrements: the loop walks out of every buffer and overflows the
  counter, which C++ leaves undefined; the call then has no result.
\<close>

definition process_block ::
  "nat \<Rightarrow> nat \<Rightarrow> 32 word \<Rightarrow> memory \<Rightarrow> ResonantLowPassFilter
     \<Rightarrow> (memory \<times> ResonantLowPassFilter) option" where
  "process_block sourceP destP inFramesToProcess mem this =
     (if sint inFramesToProcess < 0 then None
      else Some (process_frames (nat (sint inFramesToProcess)) sourceP destP mem this))"

section \<open>What the specification says, in its own words\<close>

text \<open>Section 4.2, step 2: the cutoff is raised to at least 12.0 Hz and the resonance is
  clamped to the closed range from -20.0 to 20.0.\<close>

definition spec_clampCutoffHz :: "f64 \<Rightarrow> f64" where
  "spec_clampCutoffHz cutoffHz = (if d_lt cutoffHz dbl_12_0 then dbl_12_0 else cutoffHz)"

definition spec_clampResonanceDb :: "f64 \<Rightarrow> f64" where
  "spec_clampResonanceDb resonanceDb =
     (if d_lt resonanceDb dbl_neg_20_0 then dbl_neg_20_0
      else if d_gt resonanceDb dbl_20_0 then dbl_20_0
      else resonanceDb)"

text \<open>Section 4.2, steps 4 to 7: the coefficients \<open>(a0, a1, a2, b1, b2)\<close> from the sample
  rate and the clamped parameters.\<close>

definition spec_coefficients ::
  "libm \<Rightarrow> f64 \<Rightarrow> f64 \<Rightarrow> f64 \<Rightarrow> f64 \<times> f64 \<times> f64 \<times> f64 \<times> f64" where
  "spec_coefficients lm sampleRate clampedCutoffHz resonanceDb =
     (let cutoff = ddiv (dmul dbl_2_0 clampedCutoffHz) sampleRate;
          cutoff = (if d_gt cutoff dbl_0_99 then dbl_0_99 else cutoff);
          r = lm_pow lm dbl_10_0 (dmul dbl_0_05 (dneg resonanceDb));
          k = dmul (dmul dbl_0_5 r) (lm_sin lm (dmul M_PI cutoff));
          c1 = ddiv (dmul dbl_0_5 (dsub dbl_1_0 k)) (dadd dbl_1_0 k);
          c2 = dmul (dadd dbl_0_5 c1) (lm_cos lm (dmul M_PI cutoff));
          c3 = dmul (dsub (dadd dbl_0_5 c1) c2) dbl_0_25
      in (dmul dbl_2_0 c3, dmul dbl_4_0 c3, dmul dbl_2_0 c3, dmul dbl_neg_2_0 c2,
          dmul dbl_2_0 c1))"

definition coefficients_of :: "ResonantLowPassFilter \<Rightarrow> f64 \<times> f64 \<times> f64 \<times> f64 \<times> f64" where
  "coefficients_of this = (mA0 this, mA1 this, mA2 this, mB1 this, mB2 this)"

text \<open>Section 4.3: \<open>output = a0*input + a1*x1 + a2*x2 - b1*y1 - b2*y2\<close>, computed in
  \<^verbatim>\<open>double\<close> from the members and delivered as a \<^verbatim>\<open>float\<close> sample.\<close>

definition spec_output :: "ResonantLowPassFilter \<Rightarrow> f32 \<Rightarrow> f32" where
  "spec_output this input =
     to_float
       (dsub (dsub (dadd (dadd (dmul (mA0 this) (to_double input)) (dmul (mA1 this) (mX1 this)))
                         (dmul (mA2 this) (mX2 this)))
                   (dmul (mB1 this) (mY1 this)))
             (dmul (mB2 this) (mY2 this)))"

text \<open>Section 8, block/sample equivalence: a caller that feeds the samples one at a time to
  the single-sample \<^verbatim>\<open>process\<close> and collects what it returns.\<close>

fun process_each ::
  "f32 list \<Rightarrow> ResonantLowPassFilter \<Rightarrow> f32 list \<times> ResonantLowPassFilter" where
  "process_each [] this = ([], this)"
| "process_each (x # xs) this =
     (case process x this of
        (y, this') \<Rightarrow> (case process_each xs this' of (ys, this'') \<Rightarrow> (y # ys, this'')))"

section \<open>Filters that the interface produces, and what a caller can observe\<close>

text \<open>The calls of the public interface (section 6 of the specification).\<close>

datatype call =
    Init f64
  | SetParams f64 f64
  | Process f32
  | ProcessBlock nat nat "32 word"

text \<open>One call on a memory and a filter: the samples it returns, and the memory and the
  filter after it; \<open>None\<close> when the call has no defined result.\<close>

fun step ::
  "libm \<Rightarrow> call \<Rightarrow> memory \<Rightarrow> ResonantLowPassFilter
     \<Rightarrow> (f32 list \<times> memory \<times> ResonantLowPassFilter) option" where
  "step lm (Init sampleRate) mem this = Some ([], mem, init sampleRate this)"
| "step lm (SetParams cutoffHz resonanceDb) mem this =
     Some ([], mem, setParams lm cutoffHz resonanceDb this)"
| "step lm (Process x) mem this = Some ([fst (process x this)], mem, snd (process x this))"
| "step lm (ProcessBlock sourceP destP n) mem this =
     (case process_block sourceP destP n mem this of
        None \<Rightarrow> None
      | Some (mem', this') \<Rightarrow> Some ([], mem', this'))"

text \<open>What a caller observes of a sequence of calls: the returned samples in order, and the
  memory at the end.\<close>

fun run :: "libm \<Rightarrow> call list \<Rightarrow> memory \<Rightarrow> ResonantLowPassFilter \<Rightarrow> (f32 list \<times> memory) option" where
  "run lm [] mem this = Some ([], mem)"
| "run lm (c # cs) mem this =
     (case step lm c mem this of
        None \<Rightarrow> None
      | Some (ys, mem', this') \<Rightarrow>
          (case run lm cs mem' this' of
             None \<Rightarrow> None
           | Some (zs, mem'') \<Rightarrow> Some (ys @ zs, mem'')))"

text \<open>Two filters behave identically when no sequence of calls, on any memory, tells them
  apart.\<close>

definition same_behaviour :: "libm \<Rightarrow> ResonantLowPassFilter \<Rightarrow> ResonantLowPassFilter \<Rightarrow> bool" where
  "same_behaviour lm a b = (\<forall>calls mem. run lm calls mem a = run lm calls mem b)"

text \<open>The filters a program can hold: a constructed one, and whatever the four operations
  make of it.\<close>

inductive reachable :: "libm \<Rightarrow> ResonantLowPassFilter \<Rightarrow> bool" for lm :: libm where
  constructed: "reachable lm (construct storage)"
| after_init: "reachable lm this \<Longrightarrow> reachable lm (init sampleRate this)"
| after_setParams: "reachable lm this \<Longrightarrow> reachable lm (setParams lm cutoffHz resonanceDb this)"
| after_process: "reachable lm this \<Longrightarrow> reachable lm (snd (process x this))"
| after_process_block:
    "reachable lm this \<Longrightarrow> process_block sourceP destP n mem this = Some (mem', this')
       \<Longrightarrow> reachable lm this'"

text \<open>The C library's \<^verbatim>\<open>pow\<close> returns the same result for the exponents \<open>+0\<close> and \<open>-0\<close>
  (C11 F.10.4.4 makes it 1 for both).\<close>

definition pow_ignores_zero_sign :: "libm \<Rightarrow> bool" where
  "pow_ignores_zero_sign lm = (lm_pow lm dbl_10_0 dbl_neg_0_0 = lm_pow lm dbl_10_0 dbl_0_0)"

subsection \<open>Auxiliary notions of the proofs\<close>

fun neg_val :: "fpval \<Rightarrow> fpval" where
  "neg_val FNaN = FNaN"
| "neg_val (FInf s) = FInf (\<not> s)"
| "neg_val (FNum s m e) = FNum (\<not> s) m e"

definition is_zero64 :: "f64 \<Rightarrow> bool" where
  "is_zero64 a = (a = dbl_0_0 \<or> a = dbl_neg_0_0)"

text \<open>The members that only \<^verbatim>\<open>init\<close> and \<^verbatim>\<open>setParams\<close> assign.\<close>

definition settings_of ::
  "ResonantLowPassFilter \<Rightarrow> f64 \<times> f64 \<times> f64 \<times> f64 \<times> f64 \<times> f64 \<times> f64 \<times> f64" where
  "settings_of this =
     (sampleRateHz this, mLastCutoffHz this, mLastResonanceDb this,
      mA0 this, mA1 this, mA2 this, mB1 this, mB2 this)"

text \<open>A filter after a recomputation: the coefficients of section 4.2 from the clamped
  parameters, and the clamped parameters memoized.\<close>

definition recomputed ::
  "libm \<Rightarrow> f64 \<Rightarrow> f64 \<Rightarrow> ResonantLowPassFilter \<Rightarrow> ResonantLowPassFilter" where
  "recomputed lm cutoffHz resonanceDb this =
     (case spec_coefficients lm (sampleRateHz this) (spec_clampCutoffHz cutoffHz)
             (spec_clampResonanceDb resonanceDb) of
        (a0, a1, a2, b1, b2) \<Rightarrow>
          this\<lparr>mA0 := a0, mA1 := a1, mA2 := a2, mB1 := b1, mB2 := b2,
               mLastCutoffHz := spec_clampCutoffHz cutoffHz,
               mLastResonanceDb := spec_clampResonanceDb resonanceDb\<rparr>)"

text \<open>Filters that differ at most in the sign of a memoized zero resonance.\<close>

definition alike :: "ResonantLowPassFilter \<Rightarrow> ResonantLowPassFilter \<Rightarrow> bool" where
  "alike a b =
     (\<exists>z. b = a\<lparr>mLastResonanceDb := z\<rparr> \<and>
          (z = mLastResonanceDb a \<or> (is_zero64 z \<and> is_zero64 (mLastResonanceDb a))))"

text \<open>The memoized parameters are the sentinel pair of \<^verbatim>\<open>init\<close>, or they are clamped values
  and the coefficients are the ones computed from them at the current sample rate.\<close>

definition coherent :: "libm \<Rightarrow> ResonantLowPassFilter \<Rightarrow> bool" where
  "coherent lm this =
     ((mLastCutoffHz this = dbl_neg_1_0 \<and> mLastResonanceDb this = dbl_neg_1_0) \<or>
      (\<not> d_lt (mLastCutoffHz this) dbl_12_0 \<and>
       \<not> d_lt (mLastResonanceDb this) dbl_neg_20_0 \<and>
       \<not> d_gt (mLastResonanceDb this) dbl_20_0 \<and>
       coefficients_of this =
         spec_coefficients lm (sampleRateHz this) (mLastCutoffHz this) (mLastResonanceDb this)))"

subsection \<open>Concrete filters and a concrete C library for the examples\<close>

definition zero_filter :: ResonantLowPassFilter where
  "zero_filter =
     \<lparr>mA0 = dbl_0_0, mA1 = dbl_0_0, mA2 = dbl_0_0, mB1 = dbl_0_0, mB2 = dbl_0_0,
      mX1 = dbl_0_0, mX2 = dbl_0_0, mY1 = dbl_0_0, mY2 = dbl_0_0,
      sampleRateHz = dbl_0_0, mLastCutoffHz = dbl_0_0, mLastResonanceDb = dbl_0_0\<rparr>"

text \<open>A filter that has processed samples: the tap \<^verbatim>\<open>mY2\<close> holds 1.0 and the coefficient
  \<^verbatim>\<open>mB2\<close> is 0.5.\<close>

definition used_filter :: ResonantLowPassFilter where
  "used_filter = zero_filter\<lparr>mB2 := dbl_0_5, mY2 := dbl_1_0\<rparr>"

text \<open>A filter with the single coefficient \<^verbatim>\<open>mA0 = 2.0\<close>, and one with \<^verbatim>\<open>mA0\<close> infinite.\<close>

definition doubling_filter :: ResonantLowPassFilter where
  "doubling_filter = zero_filter\<lparr>mA0 := dbl_2_0\<rparr>"

definition degenerate_filter :: ResonantLowPassFilter where
  "degenerate_filter = zero_filter\<lparr>mA0 := dbl_inf\<rparr>"

text \<open>A memory that holds the largest finite \<^verbatim>\<open>float\<close> at address 0 and 0.0 elsewhere.\<close>

definition ramp :: memory where
  "ramp = (\<lambda>a. if a = 0 then flt_max else flt_0_0)"

text \<open>A C library whose \<^verbatim>\<open>pow\<close> is exact on the exponents \<open>+0\<close> and \<open>-0\<close> and whose \<^verbatim>\<open>sin\<close>
  and \<^verbatim>\<open>cos\<close> are exact at 0; elsewhere it returns these same values. It instantiates the
  library parameter where an example needs a closed term.\<close>

definition flat_libm :: libm where
  "flat_libm = \<lparr>lm_pow = (\<lambda>x y. dbl_1_0), lm_sin = (\<lambda>x. dbl_0_0), lm_cos = (\<lambda>x. dbl_1_0)\<rparr>"

text \<open>A filter that a caller set to the cutoff 12.0 and the resonance \<open>-0\<close>: it memoizes the
  negative zero.\<close>

definition zero_resonance_filter :: ResonantLowPassFilter where
  "zero_resonance_filter = setParams flat_libm dbl_12_0 dbl_neg_0_0 (construct zero_filter)"

section \<open>Evaluating the arithmetic\<close>

declare bitlen.simps [simp del]

lemma bitlen_0 [simp]: "bitlen 0 = 0"
  by (simp add: bitlen.simps)

lemma bitlen_Suc_0 [simp]: "bitlen (Suc 0) = 1"
  by (simp add: bitlen.simps)

lemma bitlen_numeral [simp]: "bitlen (numeral k) = bitlen (numeral k div 2) + 1"
  by (subst bitlen.simps) simp

text \<open>The definitions that the simplifier unfolds to compute an operation on literals.\<close>

lemmas fp_eval = emin_def unpack_fields_def unpack_def sign_bit_def inf_bits_def nan_bits_def
  scaled_def floor_quotient_def round_quotient_def quantum_adjust_def quantum_from_def
  quantum_def encode_def round_at_def round_pack_def signed_mant_def round_signed_def
  add_aligned_def fp_mul_def fp_div_def fp_add_def fp_neg_def fp_convert_def
  dmul_def ddiv_def dadd_def dneg_def dsub_def to_float_def to_double_def

lemmas literal_defs = dbl_0_0_def dbl_neg_0_0_def dbl_0_05_def dbl_0_25_def dbl_0_5_def
  dbl_0_99_def dbl_1_0_def dbl_2_0_def dbl_4_0_def dbl_5_0_def dbl_10_0_def dbl_12_0_def
  dbl_20_0_def dbl_100_0_def dbl_1000_0_def dbl_44100_0_def M_PI_def dbl_neg_1_0_def
  dbl_neg_2_0_def dbl_neg_20_0_def dbl_neg_30_0_def dbl_inf_def flt_0_0_def flt_neg_0_5_def
  flt_max_def flt_inf_def

lemma kMinCutoffHz_double: "to_double kMinCutoffHz = dbl_12_0"
  by (simp add: kMinCutoffHz_def literal_defs fp_eval)

lemma kMinResonance_double: "to_double kMinResonance = dbl_neg_20_0"
  by (simp add: kMinResonance_def literal_defs fp_eval)

lemma kMaxResonance_double: "to_double kMaxResonance = dbl_20_0"
  by (simp add: kMaxResonance_def literal_defs fp_eval)

lemma dneg_1_0: "dneg dbl_1_0 = dbl_neg_1_0"
  by (simp add: literal_defs fp_eval)

lemma dneg_2_0: "dneg dbl_2_0 = dbl_neg_2_0"
  by (simp add: literal_defs fp_eval)

lemma dmul_2_2: "dmul dbl_2_0 dbl_2_0 = dbl_4_0"
  by (simp add: literal_defs fp_eval)

lemmas cmp_eval = d_eq_def d_lt_def d_gt_def isnan64_def dkey_def unpack_def unpack_fields_def
  emin_def

subsection \<open>Negation and the sign of a product\<close>


lemma neg_val_unpack_fields: "neg_val (unpack_fields t w s ex fr) = unpack_fields t w (\<not> s) ex fr"
  by (simp add: unpack_fields_def)

lemma div_add_self_small:
  assumes "b < P"
  shows "(b + P) div P = (1::nat)"
proof -
  from assms have "P \<noteq> 0" by auto
  then have "(b + P) div P = b div P + 1" by (rule div_add_self2)
  with assms show ?thesis by simp
qed

lemma unpack_add_sign:
  assumes "b < 2 ^ (t + w)"
  shows "unpack t w (b + 2 ^ (t + w)) = neg_val (unpack t w b)"
proof -
  have s0: "b div 2 ^ (t + w) = 0" using assms by simp
  have s1: "(b + 2 ^ (t + w)) div 2 ^ (t + w) = 1" using assms by (rule div_add_self_small)
  have "(b + 2 ^ (t + w)) div 2 ^ t = b div 2 ^ t + 2 ^ w"
    by (simp add: power_add)
  then have ex: "(b + 2 ^ (t + w)) div 2 ^ t mod 2 ^ w = b div 2 ^ t mod 2 ^ w"
    by simp
  have fr: "(b + 2 ^ (t + w)) mod 2 ^ t = b mod 2 ^ t"
    by (simp add: power_add)
  show ?thesis
    by (simp add: unpack_def s0 s1 ex fr neg_val_unpack_fields)
qed

lemma neg_val_twice: "neg_val (neg_val x) = x"
  by (cases x) simp_all

lemma fp_neg_cases:
  assumes "b < 2 * 2 ^ (t + w)"
  shows "(b < 2 ^ (t + w) \<and> fp_neg t w b = b + 2 ^ (t + w)) \<or>
         (2 ^ (t + w) \<le> b \<and> fp_neg t w b = b - 2 ^ (t + w))"
proof (cases "b < 2 ^ (t + w)")
  case True
  then have "b div 2 ^ (t + w) = 0" by simp
  with True show ?thesis by (simp add: fp_neg_def)
next
  case False
  define c where "c = b - 2 ^ (t + w)"
  have c: "c < 2 ^ (t + w)" and b: "b = c + 2 ^ (t + w)"
    using assms False by (simp_all add: c_def)
  have "b div 2 ^ (t + w) = 1" unfolding b using c by (rule div_add_self_small)
  with False show ?thesis by (simp add: fp_neg_def)
qed

lemma unpack_fp_neg:
  assumes "b < 2 * 2 ^ (t + w)"
  shows "unpack t w (fp_neg t w b) = neg_val (unpack t w b)"
proof -
  from fp_neg_cases [OF assms] show ?thesis
  proof
    assume "b < 2 ^ (t + w) \<and> fp_neg t w b = b + 2 ^ (t + w)"
    then show ?thesis by (simp add: unpack_add_sign)
  next
    assume h: "2 ^ (t + w) \<le> b \<and> fp_neg t w b = b - 2 ^ (t + w)"
    define c where "c = b - 2 ^ (t + w)"
    have c: "c < 2 ^ (t + w)" and b: "b = c + 2 ^ (t + w)"
      using assms h by (simp_all add: c_def)
    have "unpack t w b = neg_val (unpack t w c)"
      unfolding b using c by (rule unpack_add_sign)
    moreover have "fp_neg t w b = c" using h by (simp add: c_def)
    ultimately show ?thesis by (simp add: neg_val_twice)
  qed
qed

lemma fp_neg_less: "b < 2 * 2 ^ (t + w) \<Longrightarrow> fp_neg t w b < 2 * 2 ^ (t + w)"
  using fp_neg_cases [of b t w] by auto

lemma unat_f64_less: "unat (a :: f64) < 2 * 2 ^ (52 + 11)"
  using unsigned_less [of a] by simp

lemma unat_dneg: "unat (dneg a) = fp_neg 52 11 (unat a)"
proof -
  have "fp_neg 52 11 (unat a) < 2 * 2 ^ (52 + 11)"
    by (rule fp_neg_less) (rule unat_f64_less)
  then show ?thesis
    by (simp add: dneg_def unat_of_nat)
qed

lemma unpack_dneg: "unpack 52 11 (unat (dneg a)) = neg_val (unpack 52 11 (unat a))"
  by (simp only: unat_dneg unpack_fp_neg [OF unat_f64_less])

lemma mul_val_neg_val: "mul_val t w x (neg_val y) = mul_val t w (neg_val x) y"
  by (cases x; cases y) auto

lemma dmul_dneg: "dmul a (dneg b) = dmul (dneg a) b"
  by (simp add: dmul_def fp_mul_def unpack_dneg mul_val_neg_val)

lemma dmul_2_dneg: "dmul dbl_2_0 (dneg c) = dmul dbl_neg_2_0 c"
  by (simp add: dmul_dneg dneg_2_0)

section \<open>The two paths of \<^verbatim>\<open>setParams\<close>\<close>

lemma not_gt_neg_20_20: "\<not> d_gt dbl_neg_20_0 dbl_20_0"
  by (simp add: literal_defs cmp_eval)

lemma code_clampCutoffHz:
  "(if d_lt c (to_double kMinCutoffHz) then to_double kMinCutoffHz else c) =
   spec_clampCutoffHz c"
  by (simp add: spec_clampCutoffHz_def kMinCutoffHz_double)

lemma code_clampResonanceDb:
  "(if d_gt (if d_lt q (to_double kMinResonance) then to_double kMinResonance else q)
        (to_double kMaxResonance)
    then to_double kMaxResonance
    else if d_lt q (to_double kMinResonance) then to_double kMinResonance else q) =
   spec_clampResonanceDb q"
  by (simp add: spec_clampResonanceDb_def kMinResonance_double kMaxResonance_double
      not_gt_neg_20_20)

lemma setParams_unchanged:
  "d_eq c (mLastCutoffHz this) \<and> d_eq q (mLastResonanceDb this) \<Longrightarrow>
   setParams lm c q this = this"
  by (simp add: setParams_def)

lemma setParams_recompute:
  assumes "\<not> (d_eq c (mLastCutoffHz this) \<and> d_eq q (mLastResonanceDb this))"
  shows "setParams lm c q this = recomputed lm c q this"
  unfolding setParams_def if_not_P [OF assms] recomputed_def spec_coefficients_def Let_def
    code_clampCutoffHz code_clampResonanceDb
  by (simp add: dmul_2_2 dmul_2_dneg split del: if_split)

section \<open>Members that the operations leave or set\<close>

lemma recomputed_idem: "recomputed lm c q (recomputed lm c q this) = recomputed lm c q this"
  by (simp add: recomputed_def split: prod.splits)

lemma recomputed_taps:
  "mX1 (recomputed lm c q this) = mX1 this" "mX2 (recomputed lm c q this) = mX2 this"
  "mY1 (recomputed lm c q this) = mY1 this" "mY2 (recomputed lm c q this) = mY2 this"
  by (simp_all add: recomputed_def split: prod.splits)

lemma recomputed_members:
  "sampleRateHz (recomputed lm c q this) = sampleRateHz this"
  "mLastCutoffHz (recomputed lm c q this) = spec_clampCutoffHz c"
  "mLastResonanceDb (recomputed lm c q this) = spec_clampResonanceDb q"
  "coefficients_of (recomputed lm c q this) =
     spec_coefficients lm (sampleRateHz this) (spec_clampCutoffHz c) (spec_clampResonanceDb q)"
  by (simp_all add: recomputed_def coefficients_of_def split: prod.splits)

lemma setParams_cases:
  "setParams lm c q this = this \<or> setParams lm c q this = recomputed lm c q this"
  using setParams_unchanged [of c this q lm] setParams_recompute [of c this q lm] by blast

lemma init_members:
  "sampleRateHz (init sr this) = sr" "mLastCutoffHz (init sr this) = dbl_neg_1_0"
  "mLastResonanceDb (init sr this) = dbl_neg_1_0"
  "mX1 (init sr this) = dbl_0_0" "mX2 (init sr this) = dbl_0_0" "mY1 (init sr this) = dbl_0_0"
  "mY2 (init sr this) = mY2 this" "coefficients_of (init sr this) = coefficients_of this"
  by (simp_all add: init_def Let_def dneg_1_0 coefficients_of_def)

lemma construct_members:
  "sampleRateHz (construct st) = dbl_44100_0" "mLastCutoffHz (construct st) = dbl_neg_1_0"
  "mLastResonanceDb (construct st) = dbl_neg_1_0"
  by (simp_all add: construct_def init_members)

lemma literal_comparisons:
  "d_lt dbl_5_0 dbl_12_0" "\<not> d_lt dbl_12_0 dbl_12_0" "\<not> d_lt dbl_1000_0 dbl_12_0"
  "\<not> d_lt dbl_0_0 dbl_neg_20_0" "\<not> d_gt dbl_0_0 dbl_20_0"
  "\<not> d_lt dbl_100_0 dbl_neg_20_0" "d_gt dbl_100_0 dbl_20_0"
  "\<not> d_lt dbl_20_0 dbl_neg_20_0" "\<not> d_gt dbl_20_0 dbl_20_0"
  "\<not> d_lt dbl_neg_20_0 dbl_neg_20_0" "d_lt dbl_neg_30_0 dbl_neg_20_0"
  "\<not> d_eq dbl_5_0 dbl_neg_1_0" "\<not> d_eq dbl_1000_0 dbl_neg_1_0"
  "\<not> d_eq dbl_12_0 dbl_neg_1_0" "\<not> d_eq dbl_neg_20_0 dbl_neg_1_0"
  "d_eq dbl_neg_1_0 dbl_neg_1_0"
  by (simp_all add: literal_defs cmp_eval)

lemma literal_clamps:
  "spec_clampCutoffHz dbl_5_0 = dbl_12_0" "spec_clampCutoffHz dbl_12_0 = dbl_12_0"
  "spec_clampCutoffHz dbl_1000_0 = dbl_1000_0"
  "spec_clampResonanceDb dbl_0_0 = dbl_0_0" "spec_clampResonanceDb dbl_100_0 = dbl_20_0"
  "spec_clampResonanceDb dbl_20_0 = dbl_20_0" "spec_clampResonanceDb dbl_neg_20_0 = dbl_neg_20_0"
  "spec_clampResonanceDb dbl_neg_30_0 = dbl_neg_20_0"
  by (simp_all add: spec_clampCutoffHz_def spec_clampResonanceDb_def literal_comparisons
      not_gt_neg_20_20)

lemma literal_distinct: "dbl_12_0 \<noteq> dbl_5_0" "dbl_20_0 \<noteq> dbl_100_0"
  by (simp_all add: literal_defs)

text \<open>
  C8. Calling \<^verbatim>\<open>setParams(x, y)\<close> twice in a row leaves the filter as calling it once
  does: the second call changes no member, so the coefficients are the same, and neither
  call touches the history taps.
\<close>

theorem setParams_twice:
  "setParams lm x y (setParams lm x y this) = setParams lm x y this \<and>
   mX1 (setParams lm x y this) = mX1 this \<and> mX2 (setParams lm x y this) = mX2 this \<and>
   mY1 (setParams lm x y this) = mY1 this \<and> mY2 (setParams lm x y this) = mY2 this"
proof -
  have twice: "setParams lm x y (setParams lm x y this) = setParams lm x y this"
  proof (cases "d_eq x (mLastCutoffHz this) \<and> d_eq y (mLastResonanceDb this)")
    case True
    then show ?thesis by (simp add: setParams_unchanged)
  next
    case False
    then have first: "setParams lm x y this = recomputed lm x y this"
      by (rule setParams_recompute)
    from setParams_cases [of lm x y "recomputed lm x y this"] show ?thesis
      by (auto simp: first recomputed_idem)
  qed
  have taps: "mX1 (setParams lm x y this) = mX1 this \<and> mX2 (setParams lm x y this) = mX2 this \<and>
    mY1 (setParams lm x y this) = mY1 this \<and> mY2 (setParams lm x y this) = mY2 this"
    using setParams_cases [of lm x y this] by (auto simp: recomputed_taps)
  from twice taps show ?thesis by simp
qed

text \<open>
  C6. A call of \<^verbatim>\<open>setParams\<close> that recomputes leaves the five coefficients that
  section 4.2 of the specification derives from the sample rate, the clamped cutoff and the
  clamped resonance: the normalized cutoff \<open>2 * cutoffHz / sampleRateHz\<close> limited to 0.99,
  \<open>r = pow(10, 0.05 * -resonanceDb)\<close>, \<open>k\<close>, \<open>c1\<close>, \<open>c2\<close>, \<open>c3\<close>, and
  \<open>a0 = 2*c3\<close>, \<open>a1 = 4*c3\<close>, \<open>a2 = 2*c3\<close>, \<open>b1 = -2*c2\<close>, \<open>b2 = 2*c1\<close>.
\<close>

theorem setParams_coefficients:
  assumes "\<not> (d_eq cutoffHz (mLastCutoffHz this) \<and> d_eq resonanceDb (mLastResonanceDb this))"
  shows "coefficients_of (setParams lm cutoffHz resonanceDb this) =
         spec_coefficients lm (sampleRateHz this) (spec_clampCutoffHz cutoffHz)
           (spec_clampResonanceDb resonanceDb)"
  by (simp add: setParams_recompute [OF assms] recomputed_members)

theorem setParams_coefficients_witness:
  "\<forall>lm. coefficients_of (setParams lm dbl_1000_0 dbl_0_0 (construct zero_filter)) =
         spec_coefficients lm dbl_44100_0 dbl_1000_0 dbl_0_0"
  using setParams_coefficients [of dbl_1000_0 "construct zero_filter" dbl_0_0]
  by (simp add: construct_members literal_comparisons literal_clamps)

section \<open>What \<^verbatim>\<open>setParams\<close> memoizes, and the first call after \<^verbatim>\<open>init\<close>\<close>

text \<open>
  What the code memoizes: a call of \<^verbatim>\<open>setParams\<close> that does not take the fast path stores the
  arguments as lines 47 to 49 have overwritten them, that is the cutoff raised to at least
  12.0 and the resonance clamped to the range from -20.0 to 20.0.
\<close>

lemma setParams_memoizes_clamped:
  assumes "\<not> (d_eq cutoffHz (mLastCutoffHz this) \<and> d_eq resonanceDb (mLastResonanceDb this))"
  shows "mLastCutoffHz (setParams lm cutoffHz resonanceDb this) = spec_clampCutoffHz cutoffHz \<and>
         mLastResonanceDb (setParams lm cutoffHz resonanceDb this) =
           spec_clampResonanceDb resonanceDb"
  by (simp add: setParams_recompute [OF assms] recomputed_members)

lemma not_eq_5_12: "\<not> d_eq dbl_5_0 dbl_12_0"
  by (simp add: literal_defs cmp_eval)

text \<open>
  C2 at a failing input. On a new filter, \<^verbatim>\<open>setParams(5.0, 0.0)\<close> does not take the fast path
  and memoizes the cutoff 12.0, not the argument 5.0; likewise \<^verbatim>\<open>setParams(1000.0, 100.0)\<close>
  memoizes the resonance 20.0, not the argument 100.0. A second, identical
  \<^verbatim>\<open>setParams(5.0, 0.0)\<close> then compares the argument 5.0 with the memoized 12.0 on line 45,
  misses the fast path and computes the coefficients again, although, in the words of the
  comment on line 44, the parameters have not changed from last time.
\<close>

theorem setParams_repeated_misses_fast_path:
  "\<forall>lm. mLastCutoffHz (setParams lm dbl_5_0 dbl_0_0 (construct zero_filter)) = dbl_12_0 \<and>
        dbl_12_0 \<noteq> dbl_5_0 \<and>
        \<not> (d_eq dbl_5_0 (mLastCutoffHz (setParams lm dbl_5_0 dbl_0_0 (construct zero_filter))) \<and>
            d_eq dbl_0_0
              (mLastResonanceDb (setParams lm dbl_5_0 dbl_0_0 (construct zero_filter)))) \<and>
        setParams lm dbl_5_0 dbl_0_0 (setParams lm dbl_5_0 dbl_0_0 (construct zero_filter)) =
          recomputed lm dbl_5_0 dbl_0_0 (setParams lm dbl_5_0 dbl_0_0 (construct zero_filter)) \<and>
        mLastResonanceDb (setParams lm dbl_1000_0 dbl_100_0 (construct zero_filter)) = dbl_20_0 \<and>
        dbl_20_0 \<noteq> dbl_100_0"
proof
  fix lm
  define s where "s = setParams lm dbl_5_0 dbl_0_0 (construct zero_filter)"
  have a: "\<not> (d_eq dbl_5_0 (mLastCutoffHz (construct zero_filter)) \<and>
              d_eq dbl_0_0 (mLastResonanceDb (construct zero_filter)))"
    by (simp add: construct_members literal_comparisons)
  have b: "\<not> (d_eq dbl_1000_0 (mLastCutoffHz (construct zero_filter)) \<and>
              d_eq dbl_100_0 (mLastResonanceDb (construct zero_filter)))"
    by (simp add: construct_members literal_comparisons)
  have memo: "mLastCutoffHz s = dbl_12_0"
    unfolding s_def by (simp add: setParams_recompute [OF a] recomputed_members literal_clamps)
  then have miss: "\<not> (d_eq dbl_5_0 (mLastCutoffHz s) \<and> d_eq dbl_0_0 (mLastResonanceDb s))"
    by (simp add: not_eq_5_12)
  have again: "setParams lm dbl_5_0 dbl_0_0 s = recomputed lm dbl_5_0 dbl_0_0 s"
    using miss by (rule setParams_recompute)
  have res: "mLastResonanceDb (setParams lm dbl_1000_0 dbl_100_0 (construct zero_filter)) =
      dbl_20_0"
    by (simp add: setParams_recompute [OF b] recomputed_members literal_clamps)
  show "mLastCutoffHz (setParams lm dbl_5_0 dbl_0_0 (construct zero_filter)) = dbl_12_0 \<and>
        dbl_12_0 \<noteq> dbl_5_0 \<and>
        \<not> (d_eq dbl_5_0 (mLastCutoffHz (setParams lm dbl_5_0 dbl_0_0 (construct zero_filter))) \<and>
            d_eq dbl_0_0
              (mLastResonanceDb (setParams lm dbl_5_0 dbl_0_0 (construct zero_filter)))) \<and>
        setParams lm dbl_5_0 dbl_0_0 (setParams lm dbl_5_0 dbl_0_0 (construct zero_filter)) =
          recomputed lm dbl_5_0 dbl_0_0 (setParams lm dbl_5_0 dbl_0_0 (construct zero_filter)) \<and>
        mLastResonanceDb (setParams lm dbl_1000_0 dbl_100_0 (construct zero_filter)) = dbl_20_0 \<and>
        dbl_20_0 \<noteq> dbl_100_0"
    using memo miss again res unfolding s_def by (simp add: literal_distinct)
qed

text \<open>
  C3, as the code has it. After \<^verbatim>\<open>init(s)\<close>, the first call \<^verbatim>\<open>setParams(c, q)\<close> recomputes the
  coefficients from \<open>s\<close> and the clamped \<open>c\<close> and \<open>q\<close>, for every pair of arguments
  except the one where both compare equal to the sentinel -1.0.
\<close>

theorem first_setParams_recomputes:
  assumes "\<not> (d_eq c dbl_neg_1_0 \<and> d_eq q dbl_neg_1_0)"
  shows "coefficients_of (setParams lm c q (init s this)) =
         spec_coefficients lm s (spec_clampCutoffHz c) (spec_clampResonanceDb q)"
proof -
  from assms have "\<not> (d_eq c (mLastCutoffHz (init s this)) \<and>
                       d_eq q (mLastResonanceDb (init s this)))"
    by (simp add: init_members)
  then show ?thesis
    by (simp add: setParams_recompute recomputed_members init_members)
qed

theorem first_setParams_recomputes_witness:
  "\<forall>lm. coefficients_of (setParams lm dbl_5_0 dbl_0_0 (init dbl_44100_0 zero_filter)) =
        spec_coefficients lm dbl_44100_0 dbl_12_0 dbl_0_0"
  using first_setParams_recomputes [of dbl_5_0 dbl_0_0 _ dbl_44100_0 zero_filter]
  by (simp add: literal_comparisons literal_clamps)

text \<open>
  The claim as stated fails for the arguments \<open>(-1.0, -1.0)\<close>: they compare equal to the
  sentinel that \<^verbatim>\<open>init\<close> stored, the call takes the fast path, and the filter, with the
  coefficients it had before \<^verbatim>\<open>init\<close>, stays as it is.
\<close>

theorem first_setParams_sentinel_counterexample:
  "\<forall>lm. d_eq dbl_neg_1_0 (mLastCutoffHz (init dbl_44100_0 zero_filter)) \<and>
        d_eq dbl_neg_1_0 (mLastResonanceDb (init dbl_44100_0 zero_filter)) \<and>
        setParams lm dbl_neg_1_0 dbl_neg_1_0 (init dbl_44100_0 zero_filter) =
          init dbl_44100_0 zero_filter \<and>
        coefficients_of (setParams lm dbl_neg_1_0 dbl_neg_1_0 (init dbl_44100_0 zero_filter)) =
          coefficients_of zero_filter"
  by (simp add: setParams_unchanged init_members literal_comparisons)

section \<open>The single-sample recurrence\<close>

lemma process_eq:
  "process x this =
     (if isnan32 (spec_output this x) then flt_0_0 else spec_output this x,
      this\<lparr>mX2 := mX1 this, mX1 := to_double x, mY2 := mY1 this,
           mY1 := to_double (if isnan32 (spec_output this x) then flt_0_0
                             else spec_output this x)\<rparr>)"
  by (simp add: process_def spec_output_def Let_def)

lemma process_frames_Suc:
  "process_frames (Suc n) sourceP destP mem this =
     process_frames n (Suc sourceP) (Suc destP)
       (mem(destP := fst (process (mem sourceP) this))) (snd (process (mem sourceP) this))"
  by (simp add: process_eq spec_output_def Let_def split del: if_split cong: if_cong)

lemma process_block_0: "process_block sourceP destP 0 mem this = Some (mem, this)"
  by (simp add: process_block_def)

lemma process_block_1:
  "process_block sourceP destP 1 mem this =
     Some (mem(destP := fst (process (mem sourceP) this)), snd (process (mem sourceP) this))"
proof -
  have "process_frames (Suc 0) sourceP destP mem this =
    (mem(destP := fst (process (mem sourceP) this)), snd (process (mem sourceP) this))"
    by (simp only: process_frames_Suc process_frames.simps)
  then show ?thesis by (simp add: process_block_def)
qed


lemma float_literals:
  "to_double flt_0_0 = dbl_0_0" "to_double flt_inf = dbl_inf" "\<not> isnan32 flt_inf"
  "\<not> isnan32 flt_0_0" "\<not> isnan32 flt_neg_0_5" "isinf32 flt_inf" "\<not> isnan64 dbl_0_0"
  "flt_inf \<noteq> flt_0_0" "flt_neg_0_5 \<noteq> flt_0_0"
  by (simp_all add: literal_defs fp_eval isnan32_def isnan64_def isinf32_def)


lemma spec_output_doubling: "spec_output doubling_filter flt_max = flt_inf"
  by (simp add: spec_output_def doubling_filter_def zero_filter_def literal_defs fp_eval)

lemma spec_output_degenerate: "isnan32 (spec_output degenerate_filter flt_0_0)"
  by (simp add: spec_output_def degenerate_filter_def zero_filter_def literal_defs fp_eval
      isnan32_def)

lemma spec_output_used:
  "spec_output (init dbl_44100_0 used_filter) flt_0_0 = flt_neg_0_5"
  "spec_output ((init dbl_44100_0 used_filter)\<lparr>mY2 := dbl_0_0\<rparr>) flt_0_0 = flt_0_0"
  by (simp_all add: spec_output_def init_def Let_def used_filter_def zero_filter_def
      literal_defs fp_eval)


text \<open>
  C4. The single-sample \<^verbatim>\<open>process\<close> returns
  \<open>a0*input + a1*x1 + a2*x2 - b1*y1 - b2*y2\<close>, computed from the members before the call,
  with a NaN replaced by 0.0; afterwards \<open>x2\<close> is the old \<open>x1\<close>, \<open>x1\<close> is the input,
  \<open>y2\<close> is the old \<open>y1\<close> and \<open>y1\<close> is the returned sample.
\<close>

theorem process_recurrence:
  "fst (process input this) =
     (if isnan32 (spec_output this input) then flt_0_0 else spec_output this input) \<and>
   mX2 (snd (process input this)) = mX1 this \<and>
   mX1 (snd (process input this)) = to_double input \<and>
   mY2 (snd (process input this)) = mY1 this \<and>
   mY1 (snd (process input this)) = to_double (fst (process input this))"
  by (simp add: process_eq)

text \<open>
  C5, as the code has it. When the computed recurrence result is a NaN, \<^verbatim>\<open>process\<close> returns
  exactly 0.0 and the \<open>y1\<close> tap it writes is 0.0, not a NaN; the block \<^verbatim>\<open>process\<close> does the
  same in each frame. An infinite result is not replaced: it is returned, and written to
  \<open>y1\<close>, as it is.
\<close>

theorem process_suppresses_nan:
  "(isnan32 (spec_output this input) \<longrightarrow>
      fst (process input this) = flt_0_0 \<and>
      mY1 (snd (process input this)) = dbl_0_0 \<and>
      \<not> isnan64 (mY1 (snd (process input this)))) \<and>
   (isnan32 (spec_output this (mem sourceP)) \<longrightarrow>
      (\<exists>mem' this'. process_block sourceP destP 1 mem this = Some (mem', this') \<and>
         mem' destP = flt_0_0 \<and> mY1 this' = dbl_0_0)) \<and>
   (isinf32 (spec_output this input) \<longrightarrow>
      fst (process input this) = spec_output this input \<and>
      mY1 (snd (process input this)) = to_double (spec_output this input))"
proof -
  have inf: "\<not> isnan32 (spec_output this input)" if "isinf32 (spec_output this input)"
    using that by (auto simp: isinf32_def isnan32_def)
  show ?thesis
    by (auto simp: process_eq process_block_1 float_literals inf)
qed

theorem process_suppresses_nan_witness:
  "isnan32 (spec_output degenerate_filter flt_0_0) \<and>
   fst (process flt_0_0 degenerate_filter) = flt_0_0 \<and>
   mY1 (snd (process flt_0_0 degenerate_filter)) = dbl_0_0 \<and>
   \<not> isnan64 (mY1 (snd (process flt_0_0 degenerate_filter))) \<and>
   isinf32 (spec_output doubling_filter flt_max) \<and>
   fst (process flt_max doubling_filter) = spec_output doubling_filter flt_max"
  using process_suppresses_nan [of degenerate_filter flt_0_0 "\<lambda>a. flt_0_0" 0 0]
    process_suppresses_nan [of doubling_filter flt_max "\<lambda>a. flt_0_0" 0 0]
    spec_output_degenerate
  by (simp add: spec_output_doubling float_literals)

text \<open>
  The claim as stated fails for an infinite result. With the single coefficient \<open>a0 = 2.0\<close>,
  zero history and the largest finite \<^verbatim>\<open>float\<close> as input, the recurrence overflows the
  \<^verbatim>\<open>float\<close> range: \<^verbatim>\<open>process\<close> returns \<open>+\<infinity>\<close>, not 0.0, and writes \<open>+\<infinity>\<close> to \<open>y1\<close>.
\<close>

theorem process_returns_infinity_counterexample:
  "isinf32 (spec_output doubling_filter flt_max) \<and>
   fst (process flt_max doubling_filter) = flt_inf \<and>
   flt_inf \<noteq> flt_0_0 \<and>
   mY1 (snd (process flt_max doubling_filter)) = dbl_inf"
  by (simp add: process_eq spec_output_doubling float_literals)

text \<open>
  C1 at a failing input. A filter whose tap \<open>y2\<close> holds 1.0 and whose coefficient \<open>b2\<close> is
  0.5 is re-initialized: \<^verbatim>\<open>init\<close> leaves \<open>y2\<close> at 1.0, and the next \<^verbatim>\<open>process(0.0)\<close> returns
  -0.5, where a filter that had seen no samples (\<open>y2 = 0\<close>) returns 0.0. For every filter,
  \<^verbatim>\<open>init\<close> zeroes \<open>x1\<close>, \<open>x2\<close> and \<open>y1\<close> and leaves \<open>y2\<close> as it was.
\<close>

theorem init_keeps_mY2:
  "mY2 (init dbl_44100_0 used_filter) = dbl_1_0 \<and>
   fst (process flt_0_0 (init dbl_44100_0 used_filter)) = flt_neg_0_5 \<and>
   fst (process flt_0_0 ((init dbl_44100_0 used_filter)\<lparr>mY2 := dbl_0_0\<rparr>)) = flt_0_0 \<and>
   flt_neg_0_5 \<noteq> flt_0_0 \<and>
   (\<forall>s this. mX1 (init s this) = dbl_0_0 \<and> mX2 (init s this) = dbl_0_0 \<and>
      mY1 (init s this) = dbl_0_0 \<and> mY2 (init s this) = mY2 this)"
proof -
  have "mY2 (init dbl_44100_0 used_filter) = dbl_1_0"
    by (simp add: init_members used_filter_def)
  moreover have "fst (process flt_0_0 (init dbl_44100_0 used_filter)) = flt_neg_0_5"
    by (simp add: process_eq spec_output_used float_literals)
  moreover have
    "fst (process flt_0_0 ((init dbl_44100_0 used_filter)\<lparr>mY2 := dbl_0_0\<rparr>)) = flt_0_0"
    by (simp add: process_eq spec_output_used float_literals)
  ultimately show ?thesis
    by (simp add: float_literals init_members)
qed

section \<open>The block form\<close>

lemma process_settings: "settings_of (snd (process x this)) = settings_of this"
  by (simp add: process_eq settings_of_def)

lemma process_frames_settings:
  "settings_of (snd (process_frames n sourceP destP mem this)) = settings_of this"
proof (induction n arbitrary: sourceP destP mem this)
  case 0
  show ?case by simp
next
  case (Suc n)
  show ?case by (simp only: process_frames_Suc Suc.IH process_settings)
qed

lemma process_frames_outside:
  "a < destP \<or> destP + n \<le> a \<Longrightarrow> fst (process_frames n sourceP destP mem this) a = mem a"
proof (induction n arbitrary: sourceP destP mem this)
  case 0
  show ?case by simp
next
  case (Suc n)
  from Suc.prems have "a < Suc destP \<or> Suc destP + n \<le> a" and "a \<noteq> destP" by auto
  then show ?case by (simp only: process_frames_Suc Suc.IH) simp
qed

lemma process_block_nonneg:
  "0 \<le> sint n \<Longrightarrow>
   process_block sourceP destP n mem this =
     Some (process_frames (nat (sint n)) sourceP destP mem this)"
  by (simp add: process_block_def)

text \<open>
  C10. Neither form of \<^verbatim>\<open>process\<close> assigns the sample rate, the memoized parameters or a
  coefficient. A block call with a count that is not negative returns, leaves these members
  as they were and writes no address outside the \<open>n\<close> destination frames; with the count 0
  it leaves the whole filter and the whole memory unchanged.
\<close>

theorem process_leaves_settings:
  "settings_of (snd (process input this)) = settings_of this \<and>
   (0 \<le> sint n \<longrightarrow>
      (\<exists>mem' this'. process_block sourceP destP n mem this = Some (mem', this') \<and>
         settings_of this' = settings_of this \<and>
         (\<forall>a. a < destP \<or> destP + nat (sint n) \<le> a \<longrightarrow> mem' a = mem a))) \<and>
   process_block sourceP destP 0 mem this = Some (mem, this)"
proof -
  have "\<exists>mem' this'. process_block sourceP destP n mem this = Some (mem', this') \<and>
         settings_of this' = settings_of this \<and>
         (\<forall>a. a < destP \<or> destP + nat (sint n) \<le> a \<longrightarrow> mem' a = mem a)"
    if n: "0 \<le> sint n"
  proof (intro exI conjI)
    show "process_block sourceP destP n mem this =
      Some (fst (process_frames (nat (sint n)) sourceP destP mem this),
            snd (process_frames (nat (sint n)) sourceP destP mem this))"
      using n by (simp add: process_block_nonneg)
    show "settings_of (snd (process_frames (nat (sint n)) sourceP destP mem this)) =
      settings_of this"
      by (rule process_frames_settings)
    show "\<forall>a. a < destP \<or> destP + nat (sint n) \<le> a \<longrightarrow>
      fst (process_frames (nat (sint n)) sourceP destP mem this) a = mem a"
      by (simp add: process_frames_outside)
  qed
  then show ?thesis
    by (simp add: process_settings process_block_0)
qed

theorem process_leaves_settings_witness:
  "settings_of (snd (process flt_0_0 zero_filter)) = settings_of zero_filter \<and>
   (\<exists>mem' this'. process_block 0 0 2 (\<lambda>a. flt_0_0) zero_filter = Some (mem', this') \<and>
      settings_of this' = settings_of zero_filter \<and>
      (\<forall>a. 2 \<le> a \<longrightarrow> mem' a = flt_0_0)) \<and>
   process_block 0 0 0 (\<lambda>a. flt_0_0) zero_filter = Some (\<lambda>a. flt_0_0, zero_filter)"
  using process_leaves_settings [of flt_0_0 zero_filter 2 0 0 "\<lambda>a. flt_0_0"]
  by (simp add: numeral_2_eq_2)

lemma process_each_Cons:
  "process_each (x # xs) this =
     (fst (process x this) # fst (process_each xs (snd (process x this))),
      snd (process_each xs (snd (process x this))))"
  by (simp add: split_beta)

lemma process_frames_each:
  assumes "destP \<le> sourceP \<or> sourceP + n \<le> destP"
  shows "snd (process_frames n sourceP destP mem this) =
           snd (process_each (map mem [sourceP ..< sourceP + n]) this) \<and>
         map (fst (process_frames n sourceP destP mem this)) [destP ..< destP + n] =
           fst (process_each (map mem [sourceP ..< sourceP + n]) this)"
  using assms
proof (induction n arbitrary: sourceP destP mem this)
  case 0
  show ?case by simp
next
  case (Suc n)
  define y where "y = fst (process (mem sourceP) this)"
  define this1 where "this1 = snd (process (mem sourceP) this)"
  define mem1 where "mem1 = mem(destP := y)"
  define r where "r = process_frames n (Suc sourceP) (Suc destP) mem1 this1"
  have step: "process_frames (Suc n) sourceP destP mem this = r"
    by (simp only: process_frames_Suc r_def mem1_def y_def this1_def)
  from Suc.prems have layout: "Suc destP \<le> Suc sourceP \<or> Suc sourceP + n \<le> Suc destP"
    by auto
  from Suc.prems have "\<forall>a \<in> set [Suc sourceP ..< Suc sourceP + n]. a \<noteq> destP"
    by auto
  then have inputs: "map mem1 [Suc sourceP ..< Suc sourceP + n] =
    map mem [Suc sourceP ..< Suc sourceP + n]"
    by (simp add: mem1_def)
  have src: "[sourceP ..< sourceP + Suc n] = sourceP # [Suc sourceP ..< Suc sourceP + n]"
    by (simp add: upt_conv_Cons)
  have dst: "[destP ..< destP + Suc n] = destP # [Suc destP ..< Suc destP + n]"
    by (simp add: upt_conv_Cons)
  have first: "fst r destP = y"
    unfolding r_def by (simp add: process_frames_outside mem1_def)
  note ih = Suc.IH [OF layout, of mem1 this1, folded r_def, unfolded inputs]
  show ?case
    unfolding step src dst
    by (simp only: list.map process_each_Cons fst_conv snd_conv ih first
        y_def [symmetric] this1_def [symmetric])
qed

lemma process_frames_add:
  "process_frames (n1 + n2) sourceP destP mem this =
     process_frames n2 (sourceP + n1) (destP + n1)
       (fst (process_frames n1 sourceP destP mem this))
       (snd (process_frames n1 sourceP destP mem this))"
  by (induction n1 arbitrary: sourceP destP mem this)
    (simp_all del: process_frames.simps(2) add: process_frames_Suc)

lemma sint_add_small:
  fixes n1 n2 :: "32 word"
  assumes "0 \<le> sint n1" "0 \<le> sint n2" "sint n1 + sint n2 < 2 ^ 31"
  shows "sint (n1 + n2) = sint n1 + sint n2"
proof -
  have "sint (n1 + n2) = signed_take_bit (LENGTH(32) - 1) (sint n1 + sint n2)"
    by (rule sint_word_add)
  also have "\<dots> = sint n1 + sint n2"
    using assms by (simp add: signed_take_bit_int_eq_self)
  finally show ?thesis .
qed

text \<open>
  C7. A block call with a count \<open>n1\<close> that is not negative, whose destination does not start
  inside the source after its first sample (the two buffers may coincide), returns, leaves
  the filter that feeding the \<open>n1\<close> source samples one at a time to the single-sample
  \<^verbatim>\<open>process\<close> leaves, and leaves in the destination the samples those calls return. A block
  call with \<open>n1 + n2\<close> frames does what a call with \<open>n1\<close> frames followed by a call with \<open>n2\<close>
  frames on the advanced pointers does.
\<close>

theorem block_equals_samples:
  assumes "0 \<le> sint n1" and "0 \<le> sint n2" and "sint n1 + sint n2 < 2 ^ 31"
    and "destP \<le> sourceP \<or> sourceP + nat (sint n1) \<le> destP"
  shows "(\<exists>mem' this'. process_block sourceP destP n1 mem this = Some (mem', this') \<and>
            this' = snd (process_each (map mem [sourceP ..< sourceP + nat (sint n1)]) this) \<and>
            map mem' [destP ..< destP + nat (sint n1)] =
              fst (process_each (map mem [sourceP ..< sourceP + nat (sint n1)]) this)) \<and>
         process_block sourceP destP (n1 + n2) mem this =
           (case process_block sourceP destP n1 mem this of
              None \<Rightarrow> None
            | Some (mem1, this1) \<Rightarrow>
                process_block (sourceP + nat (sint n1)) (destP + nat (sint n1)) n2 mem1 this1)"
proof -
  define N1 where "N1 = nat (sint n1)"
  define N2 where "N2 = nat (sint n2)"
  define r where "r = process_frames N1 sourceP destP mem this"
  have b1: "process_block sourceP destP n1 mem this = Some (fst r, snd r)"
    using assms(1) by (simp add: process_block_nonneg r_def N1_def)
  have each: "snd r = snd (process_each (map mem [sourceP ..< sourceP + N1]) this) \<and>
      map (fst r) [destP ..< destP + N1] =
        fst (process_each (map mem [sourceP ..< sourceP + N1]) this)"
    unfolding r_def using assms(4) by (intro process_frames_each) (simp add: N1_def)
  have "sint (n1 + n2) = sint n1 + sint n2"
    using assms(1-3) by (rule sint_add_small)
  then have sum: "0 \<le> sint (n1 + n2)" "nat (sint (n1 + n2)) = N1 + N2"
    using assms(1,2) by (simp_all add: N1_def N2_def nat_add_distrib)
  have "process_block sourceP destP (n1 + n2) mem this =
      Some (process_frames (N1 + N2) sourceP destP mem this)"
    using sum by (simp add: process_block_nonneg)
  also have "\<dots> = Some (process_frames N2 (sourceP + N1) (destP + N1) (fst r) (snd r))"
    by (simp only: process_frames_add r_def)
  also have "\<dots> = process_block (sourceP + N1) (destP + N1) n2 (fst r) (snd r)"
    using assms(2) by (simp add: process_block_nonneg N2_def)
  finally have split:
    "process_block sourceP destP (n1 + n2) mem this =
       process_block (sourceP + N1) (destP + N1) n2 (fst r) (snd r)" .
  show ?thesis
    unfolding N1_def [symmetric] b1 split
    using each by simp
qed

theorem block_equals_samples_witness:
  "(\<exists>mem' this'. process_block 0 0 2 ramp doubling_filter = Some (mem', this') \<and>
      this' = snd (process_each [ramp 0, ramp 1] doubling_filter) \<and>
      [mem' 0, mem' 1] = fst (process_each [ramp 0, ramp 1] doubling_filter)) \<and>
   process_block 0 0 3 ramp doubling_filter =
     (case process_block 0 0 2 ramp doubling_filter of
        None \<Rightarrow> None
      | Some (mem1, this1) \<Rightarrow> process_block 2 2 1 mem1 this1)"
proof -
  have u: "[0 ..< 2] = [0, Suc 0]" by (simp add: upt_conv_Cons)
  have s: "(2 :: 32 word) + 1 = 3" by simp
  from block_equals_samples [of 2 1 0 0 ramp doubling_filter] show ?thesis
    by (simp add: u s numeral_2_eq_2 cong: option.case_cong)
qed

section \<open>Arguments outside the ranges\<close>

subsection \<open>Comparisons that hold\<close>

lemma unat_eq_cases:
  fixes x :: f64
  shows "unat x = 0 \<Longrightarrow> x = 0" and "unat x = 2 ^ 63 \<Longrightarrow> x = 0x8000000000000000"
  by (simp_all add: word_unat_eq_iff)

lemma key_zero:
  fixes a P :: nat
  shows "(if a < P then int a else - int (a - P)) = 0 \<Longrightarrow> a = 0 \<or> a = P"
  by (auto split: if_splits)

lemma key_inj:
  fixes a b P :: nat
  assumes "(if a < P then int a else - int (a - P)) = (if b < P then int b else - int (b - P))"
    and "(if b < P then int b else - int (b - P)) \<noteq> 0"
  shows "a = b"
  using assms by (auto split: if_splits)

lemma dkey_zero:
  assumes "dkey x = 0"
  shows "is_zero64 x"
proof -
  have "unat x = 0 \<or> unat x = 2 ^ 63"
    using assms unfolding dkey_def by (rule key_zero)
  then show ?thesis
    using unat_eq_cases [of x] by (auto simp: is_zero64_def literal_defs)
qed

lemma dkey_eq:
  assumes "dkey x = dkey y" and "dkey y \<noteq> 0"
  shows "x = y"
proof -
  have "unat x = unat y"
    using assms unfolding dkey_def by (rule key_inj)
  then show ?thesis by (simp add: word_unat_eq_iff)
qed

lemma d_eq_nonzero: "d_eq x y \<Longrightarrow> dkey y \<noteq> 0 \<Longrightarrow> x = y"
  by (auto simp: d_eq_def intro: dkey_eq)

lemma is_zero64_key: "is_zero64 a \<Longrightarrow> \<not> isnan64 a \<and> dkey a = 0"
  by (auto simp: is_zero64_def literal_defs cmp_eval)

lemma d_eq_zero_sign: "is_zero64 a \<Longrightarrow> is_zero64 b \<Longrightarrow> d_eq q a = d_eq q b"
  by (simp add: d_eq_def is_zero64_key)

lemma literal_keys:
  "dkey dbl_5_0 = 0x4014000000000000" "dkey dbl_12_0 = 0x4028000000000000"
  "dkey dbl_20_0 = 0x4034000000000000" "dkey dbl_100_0 = 0x4059000000000000"
  "dkey dbl_1000_0 = 0x408F400000000000" "dkey dbl_0_0 = 0"
  "dkey dbl_neg_1_0 = - 0x3FF0000000000000" "dkey dbl_neg_20_0 = - 0x4034000000000000"
  by (simp_all add: literal_defs dkey_def)

lemma literal_not_nan:
  "\<not> isnan64 dbl_5_0" "\<not> isnan64 dbl_12_0" "\<not> isnan64 dbl_20_0" "\<not> isnan64 dbl_100_0"
  "\<not> isnan64 dbl_1000_0" "\<not> isnan64 dbl_0_0" "\<not> isnan64 dbl_neg_1_0" "\<not> isnan64 dbl_neg_20_0"
  by (simp_all add: literal_defs cmp_eval)

lemma clampCutoffHz_fixed: "\<not> d_lt (spec_clampCutoffHz c) dbl_12_0"
  by (simp add: spec_clampCutoffHz_def literal_comparisons)

lemma clampResonanceDb_fixed:
  "\<not> d_lt (spec_clampResonanceDb q) dbl_neg_20_0" "\<not> d_gt (spec_clampResonanceDb q) dbl_20_0"
  by (simp_all add: spec_clampResonanceDb_def literal_comparisons not_gt_neg_20_20)

lemma clampCutoffHz_id: "\<not> d_lt c dbl_12_0 \<Longrightarrow> spec_clampCutoffHz c = c"
  by (simp add: spec_clampCutoffHz_def)

lemma clampResonanceDb_low: "d_lt q dbl_neg_20_0 \<Longrightarrow> spec_clampResonanceDb q = dbl_neg_20_0"
  by (simp add: spec_clampResonanceDb_def)

subsection \<open>Every reachable filter is coherent\<close>

lemma coherent_settings: "settings_of a = settings_of b \<Longrightarrow> coherent lm a = coherent lm b"
  by (simp add: settings_of_def coherent_def coefficients_of_def)

lemma coherent_init: "coherent lm (init s this)"
  by (simp add: coherent_def init_members)

lemma coherent_recomputed: "coherent lm (recomputed lm c q this)"
  by (simp add: coherent_def recomputed_members clampCutoffHz_fixed clampResonanceDb_fixed)

lemma coherent_setParams: "coherent lm this \<Longrightarrow> coherent lm (setParams lm c q this)"
  using setParams_cases [of lm c q this] by (auto simp: coherent_recomputed)

lemma reachable_coherent: "reachable lm this \<Longrightarrow> coherent lm this"
proof (induction rule: reachable.induct)
  case (constructed storage)
  show ?case by (simp add: construct_def coherent_init)
next
  case (after_init this sampleRate)
  show ?case by (rule coherent_init)
next
  case (after_setParams this cutoffHz resonanceDb)
  then show ?case by (simp add: coherent_setParams)
next
  case (after_process this x)
  then show ?case by (simp add: coherent_settings [OF process_settings])
next
  case (after_process_block this sourceP destP n mem mem' this')
  from after_process_block.hyps(2)
  have "this' = snd (process_frames (nat (sint n)) sourceP destP mem this)"
    by (auto simp: process_block_def split: if_splits)
  with after_process_block.IH show ?case
    by (simp add: coherent_settings [OF process_frames_settings])
qed


subsection \<open>The sign of a memoized zero resonance cannot be observed\<close>

lemma alikeI:
  "z = mLastResonanceDb a \<or> (is_zero64 z \<and> is_zero64 (mLastResonanceDb a)) \<Longrightarrow>
   alike a (a\<lparr>mLastResonanceDb := z\<rparr>)"
  unfolding alike_def by blast

lemma alike_refl: "alike a a"
  using alikeI [of "mLastResonanceDb a" a] by simp

lemma alike_same_guard:
  assumes "alike a b"
  shows "(d_eq c (mLastCutoffHz a) \<and> d_eq q (mLastResonanceDb a)) =
         (d_eq c (mLastCutoffHz b) \<and> d_eq q (mLastResonanceDb b))"
proof -
  from assms obtain z where b: "b = a\<lparr>mLastResonanceDb := z\<rparr>"
    and z: "z = mLastResonanceDb a \<or> (is_zero64 z \<and> is_zero64 (mLastResonanceDb a))"
    unfolding alike_def by blast
  from z have "d_eq q (mLastResonanceDb a) = d_eq q z"
    using d_eq_zero_sign [of "mLastResonanceDb a" z q] by blast
  then show ?thesis
    unfolding b by simp
qed

lemma recomputed_forgets: "recomputed lm c q (a\<lparr>mLastResonanceDb := z\<rparr>) = recomputed lm c q a"
  by (simp add: recomputed_def split: prod.splits)

lemma init_forgets: "init s (a\<lparr>mLastResonanceDb := z\<rparr>) = init s a"
  by (simp add: init_def Let_def)

lemma process_carries:
  "process x (a\<lparr>mLastResonanceDb := z\<rparr>) =
     (fst (process x a), (snd (process x a))\<lparr>mLastResonanceDb := z\<rparr>)"
  by (simp add: process_eq spec_output_def)

lemma alike_recomputed:
  assumes "alike a b"
  shows "recomputed lm c q b = recomputed lm c q a"
proof -
  from assms obtain z where b: "b = a\<lparr>mLastResonanceDb := z\<rparr>"
    unfolding alike_def by blast
  show ?thesis
    unfolding b by (rule recomputed_forgets)
qed

lemma alike_setParams:
  assumes "alike a b"
  shows "alike (setParams lm c q a) (setParams lm c q b)"
proof (cases "d_eq c (mLastCutoffHz a) \<and> d_eq q (mLastResonanceDb a)")
  case True
  with alike_same_guard [OF assms, of c q]
  have "d_eq c (mLastCutoffHz b) \<and> d_eq q (mLastResonanceDb b)"
    by blast
  then have "setParams lm c q b = b"
    by (rule setParams_unchanged)
  moreover from True have "setParams lm c q a = a"
    by (rule setParams_unchanged)
  ultimately show ?thesis
    using assms by simp
next
  case False
  with alike_same_guard [OF assms, of c q]
  have "\<not> (d_eq c (mLastCutoffHz b) \<and> d_eq q (mLastResonanceDb b))"
    by blast
  then have "setParams lm c q b = recomputed lm c q b"
    by (rule setParams_recompute)
  moreover from False have "setParams lm c q a = recomputed lm c q a"
    by (rule setParams_recompute)
  ultimately show ?thesis
    by (simp add: alike_recomputed [OF assms] alike_refl)
qed

lemma alike_init:
  assumes "alike a b"
  shows "init s b = init s a"
proof -
  from assms obtain z where b: "b = a\<lparr>mLastResonanceDb := z\<rparr>"
    unfolding alike_def by blast
  show ?thesis
    unfolding b by (rule init_forgets)
qed

lemma alike_process:
  assumes "alike a b"
  shows "fst (process x b) = fst (process x a) \<and> alike (snd (process x a)) (snd (process x b))"
proof -
  from assms obtain z where b: "b = a\<lparr>mLastResonanceDb := z\<rparr>"
    and z: "z = mLastResonanceDb a \<or> (is_zero64 z \<and> is_zero64 (mLastResonanceDb a))"
    unfolding alike_def by blast
  have m: "mLastResonanceDb (snd (process x a)) = mLastResonanceDb a"
    by (simp add: process_eq)
  have "alike (snd (process x a)) ((snd (process x a))\<lparr>mLastResonanceDb := z\<rparr>)"
    by (rule alikeI) (simp only: m z)
  then show ?thesis
    unfolding b by (simp only: process_carries fst_conv snd_conv simp_thms)
qed

lemma alike_process_frames:
  assumes "alike a b"
  shows "fst (process_frames n sourceP destP mem b) = fst (process_frames n sourceP destP mem a) \<and>
         alike (snd (process_frames n sourceP destP mem a))
           (snd (process_frames n sourceP destP mem b))"
  using assms
proof (induction n arbitrary: sourceP destP mem a b)
  case 0
  then show ?case by simp
next
  case (Suc n)
  from alike_process [OF Suc.prems, of "mem sourceP"]
  have out: "fst (process (mem sourceP) b) = fst (process (mem sourceP) a)"
    and next_alike: "alike (snd (process (mem sourceP) a)) (snd (process (mem sourceP) b))"
    by simp_all
  show ?case
    by (simp only: process_frames_Suc out Suc.IH [OF next_alike])
qed

lemma alike_step:
  assumes "alike a b"
  shows "(step lm c mem a = None \<and> step lm c mem b = None) \<or>
         (\<exists>ys mem' a' b'. step lm c mem a = Some (ys, mem', a') \<and>
            step lm c mem b = Some (ys, mem', b') \<and> alike a' b')"
proof (cases c)
  case (Init s)
  then show ?thesis by (simp add: alike_init [OF assms] alike_refl)
next
  case (SetParams cutoffHz resonanceDb)
  then show ?thesis by (simp add: alike_setParams [OF assms])
next
  case (Process x)
  then show ?thesis using alike_process [OF assms, of x] by simp
next
  case (ProcessBlock sourceP destP n)
  show ?thesis
  proof (cases "sint n < 0")
    case True
    then show ?thesis by (simp add: ProcessBlock process_block_def)
  next
    case False
    define ra where "ra = process_frames (nat (sint n)) sourceP destP mem a"
    define rb where "rb = process_frames (nat (sint n)) sourceP destP mem b"
    from alike_process_frames [OF assms, of "nat (sint n)" sourceP destP mem]
    have "fst rb = fst ra" and "alike (snd ra) (snd rb)"
      by (simp_all add: ra_def rb_def)
    moreover have "step lm c mem a = Some ([], fst ra, snd ra)"
      using False by (simp add: ProcessBlock process_block_def ra_def split_beta)
    moreover have "step lm c mem b = Some ([], fst rb, snd rb)"
      using False by (simp add: ProcessBlock process_block_def rb_def split_beta)
    ultimately have "step lm c mem a = Some ([], fst ra, snd ra) \<and>
        step lm c mem b = Some ([], fst ra, snd rb) \<and> alike (snd ra) (snd rb)"
      by simp
    then show ?thesis by blast
  qed
qed

lemma alike_run:
  assumes "alike a b"
  shows "run lm calls mem b = run lm calls mem a"
  using assms
proof (induction calls arbitrary: mem a b)
  case Nil
  show ?case by simp
next
  case (Cons c calls)
  from alike_step [OF Cons.prems, of lm c mem] show ?case
  proof (elim disjE conjE exE)
    assume "step lm c mem a = None" "step lm c mem b = None"
    then show ?thesis by simp
  next
    fix ys mem' a' b'
    assume s: "step lm c mem a = Some (ys, mem', a')" "step lm c mem b = Some (ys, mem', b')"
      and "alike a' b'"
    then have "run lm calls mem' b' = run lm calls mem' a'"
      by (intro Cons.IH)
    with s show ?thesis by simp
  qed
qed

lemma alike_same_behaviour: "alike a b \<Longrightarrow> same_behaviour lm a b"
  by (simp add: same_behaviour_def alike_run)

lemma same_behaviour_refl: "same_behaviour lm a a"
  by (simp add: same_behaviour_def)

subsection \<open>A call on the fast path finds what a recomputation would leave\<close>

lemma d_eq_lt: "d_eq x y \<Longrightarrow> d_lt x z \<Longrightarrow> d_lt y z"
  by (simp add: d_eq_def d_lt_def)

lemma d_lt_eq: "d_lt z x \<Longrightarrow> d_eq x y \<Longrightarrow> d_lt z y"
  by (simp add: d_eq_def d_lt_def)

lemma d_eq_key: "d_eq x y \<Longrightarrow> dkey x = dkey y \<and> \<not> isnan64 y"
  by (simp add: d_eq_def)

lemma more_literal_comparisons:
  "\<not> d_lt dbl_neg_1_0 dbl_neg_20_0" "d_lt dbl_20_0 dbl_100_0" "\<not> d_eq dbl_100_0 dbl_neg_1_0"
  "dkey dbl_12_0 \<noteq> 0" "dkey dbl_20_0 \<noteq> 0" "dkey dbl_1000_0 \<noteq> 0" "dkey dbl_neg_20_0 \<noteq> 0"
  "0 < dkey dbl_12_0"
  by (simp_all add: literal_defs cmp_eval)

lemma zero_key_below_12: "\<not> isnan64 a \<Longrightarrow> dkey a = 0 \<Longrightarrow> d_lt a dbl_12_0"
  using more_literal_comparisons(8) by (simp add: d_lt_def literal_not_nan)

lemma clampResonanceDb_id:
  "\<not> d_lt q dbl_neg_20_0 \<Longrightarrow> \<not> d_gt q dbl_20_0 \<Longrightarrow> spec_clampResonanceDb q = q"
  by (simp add: spec_clampResonanceDb_def)

lemma recomputed_same_clamps:
  "spec_clampCutoffHz c = spec_clampCutoffHz c' \<Longrightarrow>
   spec_clampResonanceDb q = spec_clampResonanceDb q' \<Longrightarrow>
   recomputed lm c q this = recomputed lm c' q' this"
  by (simp add: recomputed_def)

lemma recomputed_settled:
  assumes "coefficients_of this =
      spec_coefficients lm (sampleRateHz this) (spec_clampCutoffHz c) (spec_clampResonanceDb q)"
    and "mLastCutoffHz this = spec_clampCutoffHz c"
  shows "recomputed lm c q this = this\<lparr>mLastResonanceDb := spec_clampResonanceDb q\<rparr>"
proof -
  obtain a0 a1 a2 b1 b2 where
    t: "spec_coefficients lm (sampleRateHz this) (spec_clampCutoffHz c) (spec_clampResonanceDb q) =
      (a0, a1, a2, b1, b2)"
    by (cases "spec_coefficients lm (sampleRateHz this) (spec_clampCutoffHz c)
      (spec_clampResonanceDb q)") auto
  from assms(1) have f: "a0 = mA0 this" "a1 = mA1 this" "a2 = mA2 this" "b1 = mB1 this"
    "b2 = mB2 this"
    by (simp_all add: t coefficients_of_def)
  have "recomputed lm c q this =
      this\<lparr>mA0 := a0, mA1 := a1, mA2 := a2, mB1 := b1, mB2 := b2,
           mLastCutoffHz := spec_clampCutoffHz c,
           mLastResonanceDb := spec_clampResonanceDb q\<rparr>"
    by (simp add: recomputed_def t)
  also have "\<dots> = this\<lparr>mLastResonanceDb := spec_clampResonanceDb q\<rparr>"
    unfolding f assms(2) [symmetric] by simp
  finally show ?thesis .
qed

lemma settled_cutoff:
  assumes "\<not> d_lt (mLastCutoffHz this) dbl_12_0" and "d_eq c (mLastCutoffHz this)"
  shows "mLastCutoffHz this = c \<and> spec_clampCutoffHz c = c"
proof -
  from assms(2) have k: "dkey c = dkey (mLastCutoffHz this)" "\<not> isnan64 (mLastCutoffHz this)"
    by (simp_all add: d_eq_key)
  with assms(1) have "dkey (mLastCutoffHz this) \<noteq> 0"
    using zero_key_below_12 by blast
  with assms(2) have "c = mLastCutoffHz this"
    by (rule d_eq_nonzero)
  with assms(1) show ?thesis
    by (simp add: clampCutoffHz_id)
qed

lemma fast_path_is_recomputed:
  assumes "coherent lm this"
    and "d_eq c (mLastCutoffHz this)" and "d_eq q (mLastResonanceDb this)"
    and "dkey q \<noteq> 0" and "\<not> d_eq q dbl_neg_1_0"
  shows "recomputed lm c q this = this"
proof -
  from assms(3,5) have "mLastResonanceDb this \<noteq> dbl_neg_1_0" by auto
  with assms(1) have s: "\<not> d_lt (mLastCutoffHz this) dbl_12_0"
    "\<not> d_lt (mLastResonanceDb this) dbl_neg_20_0" "\<not> d_gt (mLastResonanceDb this) dbl_20_0"
    "coefficients_of this =
       spec_coefficients lm (sampleRateHz this) (mLastCutoffHz this) (mLastResonanceDb this)"
    by (auto simp: coherent_def)
  from assms(3) have "dkey q = dkey (mLastResonanceDb this)" by (simp add: d_eq_key)
  with assms(4) have "dkey (mLastResonanceDb this) \<noteq> 0" by simp
  with assms(3) have q: "q = mLastResonanceDb this" by (rule d_eq_nonzero)
  from settled_cutoff [OF s(1) assms(2)]
  have c: "mLastCutoffHz this = c" "spec_clampCutoffHz c = c" by simp_all
  from s(2,3) have cq: "spec_clampResonanceDb (mLastResonanceDb this) = mLastResonanceDb this"
    by (simp add: clampResonanceDb_id)
  have "recomputed lm c (mLastResonanceDb this) this =
      this\<lparr>mLastResonanceDb := spec_clampResonanceDb (mLastResonanceDb this)\<rparr>"
    by (rule recomputed_settled) (simp_all add: c cq s(4))
  then show ?thesis by (simp add: cq q)
qed

lemma zero_exponents:
  "dmul dbl_0_05 (dneg dbl_0_0) = dbl_neg_0_0" "dmul dbl_0_05 (dneg dbl_neg_0_0) = dbl_0_0"
  by (simp_all add: literal_defs fp_eval)

lemma spec_coefficients_zero_sign:
  assumes "pow_ignores_zero_sign lm" and "is_zero64 z"
  shows "spec_coefficients lm s c z = spec_coefficients lm s c dbl_0_0"
proof -
  from assms(1) have "lm_pow lm dbl_10_0 (dmul dbl_0_05 (dneg dbl_neg_0_0)) =
      lm_pow lm dbl_10_0 (dmul dbl_0_05 (dneg dbl_0_0))"
    by (simp add: zero_exponents pow_ignores_zero_sign_def)
  then have "spec_coefficients lm s c dbl_neg_0_0 = spec_coefficients lm s c dbl_0_0"
    by (simp add: spec_coefficients_def)
  with assms(2) show ?thesis by (auto simp: is_zero64_def)
qed

lemma fast_path_zero_resonance:
  assumes "coherent lm this" and "pow_ignores_zero_sign lm"
    and "d_eq c (mLastCutoffHz this)" and "d_eq dbl_0_0 (mLastResonanceDb this)"
    and "\<not> d_eq c dbl_neg_1_0"
  shows "recomputed lm c dbl_0_0 this = this\<lparr>mLastResonanceDb := dbl_0_0\<rparr> \<and>
         is_zero64 (mLastResonanceDb this)"
proof -
  from assms(3,5) have "mLastCutoffHz this \<noteq> dbl_neg_1_0" by auto
  with assms(1) have s: "\<not> d_lt (mLastCutoffHz this) dbl_12_0"
    "coefficients_of this =
       spec_coefficients lm (sampleRateHz this) (mLastCutoffHz this) (mLastResonanceDb this)"
    by (auto simp: coherent_def)
  from assms(4) have "dkey (mLastResonanceDb this) = 0"
    by (simp add: d_eq_key [THEN conjunct1, symmetric] literal_keys)
  then have z: "is_zero64 (mLastResonanceDb this)" by (rule dkey_zero)
  from settled_cutoff [OF s(1) assms(3)]
  have c: "mLastCutoffHz this = c" "spec_clampCutoffHz c = c" by simp_all
  have "recomputed lm c dbl_0_0 this =
      this\<lparr>mLastResonanceDb := spec_clampResonanceDb dbl_0_0\<rparr>"
    by (rule recomputed_settled)
      (simp_all add: c literal_clamps s(2) spec_coefficients_zero_sign [OF assms(2) z])
  with z show ?thesis by (simp add: literal_clamps)
qed

lemma same_behaviour_sym: "same_behaviour lm a b \<Longrightarrow> same_behaviour lm b a"
  by (simp add: same_behaviour_def)

lemma off_fast_path_below_floor:
  assumes "coherent lm this"
  shows "\<not> d_eq dbl_5_0 (mLastCutoffHz this)"
proof
  assume e: "d_eq dbl_5_0 (mLastCutoffHz this)"
  then have "d_lt (mLastCutoffHz this) dbl_12_0"
    by (rule d_eq_lt) (rule literal_comparisons)
  moreover from e have "mLastCutoffHz this \<noteq> dbl_neg_1_0"
    using literal_comparisons(12) by auto
  ultimately show False
    using assms by (auto simp: coherent_def)
qed

lemma off_fast_path_above_ceiling:
  assumes "coherent lm this"
  shows "\<not> d_eq dbl_100_0 (mLastResonanceDb this)"
proof
  assume e: "d_eq dbl_100_0 (mLastResonanceDb this)"
  with more_literal_comparisons(2) have "d_lt dbl_20_0 (mLastResonanceDb this)"
    by (rule d_lt_eq)
  moreover from e have "mLastResonanceDb this \<noteq> dbl_neg_1_0"
    using more_literal_comparisons(3) by auto
  ultimately show False
    using assms by (auto simp: coherent_def d_gt_def)
qed

lemma off_fast_path_below_range:
  assumes "coherent lm this" and "d_lt q dbl_neg_20_0"
  shows "\<not> d_eq q (mLastResonanceDb this)"
proof
  assume e: "d_eq q (mLastResonanceDb this)"
  then have l: "d_lt (mLastResonanceDb this) dbl_neg_20_0"
    using assms(2) by (rule d_eq_lt)
  then have "mLastResonanceDb this \<noteq> dbl_neg_1_0"
    using more_literal_comparisons(1) by auto
  with l show False
    using assms(1) by (auto simp: coherent_def)
qed

lemma zero_resonance_filter_memo:
  "mLastCutoffHz zero_resonance_filter = dbl_12_0"
  "mLastResonanceDb zero_resonance_filter = dbl_neg_0_0"
proof -
  have g: "\<not> (d_eq dbl_12_0 (mLastCutoffHz (construct zero_filter)) \<and>
      d_eq dbl_neg_0_0 (mLastResonanceDb (construct zero_filter)))"
    by (simp add: construct_members literal_comparisons)
  have c: "spec_clampResonanceDb dbl_neg_0_0 = dbl_neg_0_0"
    by (simp add: spec_clampResonanceDb_def literal_defs cmp_eval)
  show "mLastCutoffHz zero_resonance_filter = dbl_12_0"
    "mLastResonanceDb zero_resonance_filter = dbl_neg_0_0"
    unfolding zero_resonance_filter_def
    by (simp_all add: setParams_recompute [OF g] recomputed_members literal_clamps c)
qed

text \<open>
  C9. On every filter that the interface produces, \<^verbatim>\<open>setParams(5.0, 0.0)\<close> leaves a filter that
  no sequence of later calls tells apart from the one \<^verbatim>\<open>setParams(12.0, 0.0)\<close> leaves;
  so do \<^verbatim>\<open>setParams(1000.0, 100.0)\<close> and \<^verbatim>\<open>setParams(1000.0, 20.0)\<close>, and, for every cutoff
  and every resonance below -20.0, that resonance and -20.0. The C library's \<^verbatim>\<open>pow\<close> is
  taken to return the same result for the exponents \<open>+0\<close> and \<open>-0\<close>.
\<close>

theorem clamped_arguments_behave_alike:
  assumes "reachable lm this" and "pow_ignores_zero_sign lm"
  shows "same_behaviour lm (setParams lm dbl_5_0 dbl_0_0 this)
           (setParams lm dbl_12_0 dbl_0_0 this) \<and>
         same_behaviour lm (setParams lm dbl_1000_0 dbl_100_0 this)
           (setParams lm dbl_1000_0 dbl_20_0 this) \<and>
         (\<forall>c q. d_lt q dbl_neg_20_0 \<longrightarrow>
            same_behaviour lm (setParams lm c q this) (setParams lm c dbl_neg_20_0 this))"
proof -
  from assms(1) have co: "coherent lm this" by (rule reachable_coherent)
  have floor: "same_behaviour lm (setParams lm dbl_5_0 dbl_0_0 this)
      (setParams lm dbl_12_0 dbl_0_0 this)"
  proof -
    have a: "setParams lm dbl_5_0 dbl_0_0 this = recomputed lm dbl_12_0 dbl_0_0 this"
      using off_fast_path_below_floor [OF co]
      by (simp add: setParams_recompute recomputed_same_clamps [of dbl_5_0 dbl_12_0]
          literal_clamps)
    show ?thesis
    proof (cases "d_eq dbl_12_0 (mLastCutoffHz this) \<and> d_eq dbl_0_0 (mLastResonanceDb this)")
      case False
      then have "setParams lm dbl_12_0 dbl_0_0 this = recomputed lm dbl_12_0 dbl_0_0 this"
        by (rule setParams_recompute)
      with a show ?thesis by (simp add: same_behaviour_refl)
    next
      case True
      then have b: "setParams lm dbl_12_0 dbl_0_0 this = this"
        by (rule setParams_unchanged)
      from True literal_comparisons(14)
      have "recomputed lm dbl_12_0 dbl_0_0 this = this\<lparr>mLastResonanceDb := dbl_0_0\<rparr> \<and>
          is_zero64 (mLastResonanceDb this)"
        by (intro fast_path_zero_resonance [OF co assms(2)]) simp_all
      then have "alike this (recomputed lm dbl_12_0 dbl_0_0 this)"
        using alikeI [of dbl_0_0 this] by (simp add: is_zero64_def)
      then have "same_behaviour lm this (recomputed lm dbl_12_0 dbl_0_0 this)"
        by (rule alike_same_behaviour)
      then show ?thesis
        unfolding a b by (rule same_behaviour_sym)
    qed
  qed
  have ceiling: "same_behaviour lm (setParams lm dbl_1000_0 dbl_100_0 this)
      (setParams lm dbl_1000_0 dbl_20_0 this)"
  proof -
    have a: "setParams lm dbl_1000_0 dbl_100_0 this = recomputed lm dbl_1000_0 dbl_20_0 this"
      using off_fast_path_above_ceiling [OF co]
      by (simp add: setParams_recompute
          recomputed_same_clamps [of dbl_1000_0 dbl_1000_0 dbl_100_0 dbl_20_0] literal_clamps)
    have "setParams lm dbl_1000_0 dbl_20_0 this = recomputed lm dbl_1000_0 dbl_20_0 this"
    proof (cases "d_eq dbl_1000_0 (mLastCutoffHz this) \<and> d_eq dbl_20_0 (mLastResonanceDb this)")
      case False
      then show ?thesis by (rule setParams_recompute)
    next
      case True
      then have "recomputed lm dbl_1000_0 dbl_20_0 this = this"
        by (intro fast_path_is_recomputed [OF co])
          (simp_all add: more_literal_comparisons literal_defs cmp_eval)
      with True show ?thesis by (simp add: setParams_unchanged)
    qed
    with a show ?thesis by (simp add: same_behaviour_refl)
  qed
  have range: "same_behaviour lm (setParams lm c q this) (setParams lm c dbl_neg_20_0 this)"
    if q: "d_lt q dbl_neg_20_0" for c q
  proof -
    have a: "setParams lm c q this = recomputed lm c dbl_neg_20_0 this"
      using off_fast_path_below_range [OF co q]
      by (simp add: setParams_recompute recomputed_same_clamps [of c c q dbl_neg_20_0]
          clampResonanceDb_low [OF q] literal_clamps)
    have "setParams lm c dbl_neg_20_0 this = recomputed lm c dbl_neg_20_0 this"
    proof (cases "d_eq c (mLastCutoffHz this) \<and> d_eq dbl_neg_20_0 (mLastResonanceDb this)")
      case False
      then show ?thesis by (rule setParams_recompute)
    next
      case True
      then have "recomputed lm c dbl_neg_20_0 this = this"
        by (intro fast_path_is_recomputed [OF co])
          (simp_all add: more_literal_comparisons literal_comparisons)
      with True show ?thesis by (simp add: setParams_unchanged)
    qed
    with a show ?thesis by (simp add: same_behaviour_refl)
  qed
  from floor ceiling range show ?thesis by blast
qed

theorem clamped_arguments_behave_alike_witness:
  "reachable flat_libm zero_resonance_filter \<and> pow_ignores_zero_sign flat_libm \<and>
   mLastResonanceDb zero_resonance_filter = dbl_neg_0_0 \<and>
   same_behaviour flat_libm (setParams flat_libm dbl_5_0 dbl_0_0 zero_resonance_filter)
     (setParams flat_libm dbl_12_0 dbl_0_0 zero_resonance_filter) \<and>
   same_behaviour flat_libm (setParams flat_libm dbl_1000_0 dbl_100_0 zero_resonance_filter)
     (setParams flat_libm dbl_1000_0 dbl_20_0 zero_resonance_filter) \<and>
   d_lt dbl_neg_30_0 dbl_neg_20_0 \<and>
   same_behaviour flat_libm (setParams flat_libm dbl_1000_0 dbl_neg_30_0 zero_resonance_filter)
     (setParams flat_libm dbl_1000_0 dbl_neg_20_0 zero_resonance_filter)"
proof -
  have r: "reachable flat_libm zero_resonance_filter"
    unfolding zero_resonance_filter_def by (intro reachable.intros)
  have p: "pow_ignores_zero_sign flat_libm"
    by (simp add: pow_ignores_zero_sign_def flat_libm_def)
  from clamped_arguments_behave_alike [OF r p] r p show ?thesis
    by (simp add: literal_comparisons zero_resonance_filter_memo)
qed

end
